theory Spec2Isabelle
  imports Complex_Main
begin

section \<open>Settings, layer types and published status\<close>

text \<open>
  The print engine (PrintEngine.cpp) and the motor protocol (Motor.cpp) are embedded as
  state-passing functions.  C \<open>int\<close> values are integers on which the arithmetic of
  the layer tests and of the motor commands wraps around at 32 bits (written out as
  \<open>int32\<close>); \<open>double\<close> values are reals; the program's integer division truncates
  towards zero and is written out as \<open>c_div\<close>.
\<close>

datatype LayerType = First | BurnIn | Model

text \<open>
  Setting names.  The per-layer names of the source (\<open>FL_ROTATION\<close>, \<open>BI_Z_LIFT\<close>,
  \<open>ML_APPROACH_Z_SPEED\<close>, ...) are a prefix for the layer type and a parameter name; they
  are available under their source names as abbreviations below.
\<close>

datatype layer_param =
  SEPARATION_R_JERK | SEPARATION_R_SPEED | ROTATION | SEPARATION_Z_JERK | SEPARATION_Z_SPEED
| Z_LIFT | APPROACH_R_JERK | APPROACH_R_SPEED | APPROACH_Z_JERK | APPROACH_Z_SPEED

datatype setting_key =
  BURN_IN_LAYERS | FIRST_EXPOSURE | BURN_IN_EXPOSURE | MODEL_EXPOSURE | HARDWARE_REV
| LAYER_THICKNESS | SEPARATION_RPM
| R_HOMING_JERK | R_HOMING_SPEED | R_HOMING_ANGLE | Z_HOMING_JERK | Z_HOMING_SPEED
| Z_START_PRINT_POSITION | R_START_PRINT_JERK | R_START_PRINT_SPEED | R_START_PRINT_ANGLE
| Z_START_PRINT_JERK | Z_START_PRINT_SPEED | INSPECTION_HEIGHT
| FL_KEY layer_param | BI_KEY layer_param | ML_KEY layer_param

abbreviation FL_SEPARATION_R_JERK :: setting_key where "FL_SEPARATION_R_JERK \<equiv> FL_KEY SEPARATION_R_JERK"
abbreviation FL_SEPARATION_R_SPEED :: setting_key where "FL_SEPARATION_R_SPEED \<equiv> FL_KEY SEPARATION_R_SPEED"
abbreviation FL_ROTATION :: setting_key where "FL_ROTATION \<equiv> FL_KEY ROTATION"
abbreviation FL_SEPARATION_Z_JERK :: setting_key where "FL_SEPARATION_Z_JERK \<equiv> FL_KEY SEPARATION_Z_JERK"
abbreviation FL_SEPARATION_Z_SPEED :: setting_key where "FL_SEPARATION_Z_SPEED \<equiv> FL_KEY SEPARATION_Z_SPEED"
abbreviation FL_Z_LIFT :: setting_key where "FL_Z_LIFT \<equiv> FL_KEY Z_LIFT"
abbreviation FL_APPROACH_R_JERK :: setting_key where "FL_APPROACH_R_JERK \<equiv> FL_KEY APPROACH_R_JERK"
abbreviation FL_APPROACH_R_SPEED :: setting_key where "FL_APPROACH_R_SPEED \<equiv> FL_KEY APPROACH_R_SPEED"
abbreviation FL_APPROACH_Z_JERK :: setting_key where "FL_APPROACH_Z_JERK \<equiv> FL_KEY APPROACH_Z_JERK"
abbreviation FL_APPROACH_Z_SPEED :: setting_key where "FL_APPROACH_Z_SPEED \<equiv> FL_KEY APPROACH_Z_SPEED"

abbreviation BI_SEPARATION_R_JERK :: setting_key where "BI_SEPARATION_R_JERK \<equiv> BI_KEY SEPARATION_R_JERK"
abbreviation BI_SEPARATION_R_SPEED :: setting_key where "BI_SEPARATION_R_SPEED \<equiv> BI_KEY SEPARATION_R_SPEED"
abbreviation BI_ROTATION :: setting_key where "BI_ROTATION \<equiv> BI_KEY ROTATION"
abbreviation BI_SEPARATION_Z_JERK :: setting_key where "BI_SEPARATION_Z_JERK \<equiv> BI_KEY SEPARATION_Z_JERK"
abbreviation BI_SEPARATION_Z_SPEED :: setting_key where "BI_SEPARATION_Z_SPEED \<equiv> BI_KEY SEPARATION_Z_SPEED"
abbreviation BI_Z_LIFT :: setting_key where "BI_Z_LIFT \<equiv> BI_KEY Z_LIFT"
abbreviation BI_APPROACH_R_JERK :: setting_key where "BI_APPROACH_R_JERK \<equiv> BI_KEY APPROACH_R_JERK"
abbreviation BI_APPROACH_R_SPEED :: setting_key where "BI_APPROACH_R_SPEED \<equiv> BI_KEY APPROACH_R_SPEED"
abbreviation BI_APPROACH_Z_JERK :: setting_key where "BI_APPROACH_Z_JERK \<equiv> BI_KEY APPROACH_Z_JERK"
abbreviation BI_APPROACH_Z_SPEED :: setting_key where "BI_APPROACH_Z_SPEED \<equiv> BI_KEY APPROACH_Z_SPEED"

abbreviation ML_SEPARATION_R_JERK :: setting_key where "ML_SEPARATION_R_JERK \<equiv> ML_KEY SEPARATION_R_JERK"
abbreviation ML_SEPARATION_R_SPEED :: setting_key where "ML_SEPARATION_R_SPEED \<equiv> ML_KEY SEPARATION_R_SPEED"
abbreviation ML_ROTATION :: setting_key where "ML_ROTATION \<equiv> ML_KEY ROTATION"
abbreviation ML_SEPARATION_Z_JERK :: setting_key where "ML_SEPARATION_Z_JERK \<equiv> ML_KEY SEPARATION_Z_JERK"
abbreviation ML_SEPARATION_Z_SPEED :: setting_key where "ML_SEPARATION_Z_SPEED \<equiv> ML_KEY SEPARATION_Z_SPEED"
abbreviation ML_Z_LIFT :: setting_key where "ML_Z_LIFT \<equiv> ML_KEY Z_LIFT"
abbreviation ML_APPROACH_R_JERK :: setting_key where "ML_APPROACH_R_JERK \<equiv> ML_KEY APPROACH_R_JERK"
abbreviation ML_APPROACH_R_SPEED :: setting_key where "ML_APPROACH_R_SPEED \<equiv> ML_KEY APPROACH_R_SPEED"
abbreviation ML_APPROACH_Z_JERK :: setting_key where "ML_APPROACH_Z_JERK \<equiv> ML_KEY APPROACH_Z_JERK"
abbreviation ML_APPROACH_Z_SPEED :: setting_key where "ML_APPROACH_Z_SPEED \<equiv> ML_KEY APPROACH_Z_SPEED"

text \<open>
  Modelled from the spec: the enumerations \<open>PrintEngineState\<close>, \<open>StateChange\<close>,
  \<open>UISubState\<close> and \<open>ErrorCode\<close> are declared in headers that are not part of the
  sources; their members are the ones the sources use and the specification lists.
\<close>

datatype PrintEngineState =
  InitializingState | IdleState | HomeState | RegisteringState | ConfirmingCancelState
| PrintingState | ExposingState | SeparatingState | ApproachingState | PausedByUserState
| InspectingState | ConfirmingResumeState | AwaitingCancelationState | ShowingVersionState
| CalibratingState | DoorOpenState | ErrorState

datatype StateChange = NoChange | Entering | Leaving

datatype UISubState = NoUISubState | Downloading | Downloaded | DownloadFailed

datatype ErrorCode =
  Success | MotorError | MotorTimeoutError | UnknownMotorStatus | FrontPanelError
| UnknownFrontPanelStatus | ExposureTimer | MotorTimeoutTimer | RemainingExposure | GpioInput
| NoImageForLayer | CantShowImage | CantShowBlack | NoPrintDataAvailable
| SeparationRpmOutOfRange

record PrinterStatus =
  state :: PrintEngineState
  UISubState :: UISubState
  change :: StateChange
  currentLayer :: int
  numLayers :: int
  estimatedSecondsRemaining :: int
  errorCode :: ErrorCode
  errno :: int
  isError :: bool

section \<open>The print engine's state and its environment\<close>

datatype log_priority = LOG_ERR | LOG_WARNING

datatype log_arg = NoArg | StrArg string | IntArg int

type_synonym log_entry = "log_priority \<times> int \<times> ErrorCode \<times> log_arg"

text \<open>
  What the engine writes to the motor board through \<open>_pMotor->Write(MOTOR_COMMAND, ...)\<close>:
  a single command byte, or the string that \<open>sprintf\<close> makes of a command template and
  a value.  The command bytes and templates are macros of a header that is not part of
  the sources, so they are kept symbolic.
\<close>

datatype motor_command_byte = STOP_MOTOR_COMMAND

datatype command_template = LAYER_THICKNESS_COMMAND | SEPARATION_RPM_COMMAND

datatype motor_write = WriteByte motor_command_byte | WriteString command_template int

datatype timer_fd = ExposureTimerFD | MotorTimeoutTimerFD

text \<open>A one-shot \<open>itimerspec\<close>: \<open>(tv_sec, tv_nsec)\<close> of \<open>it_value\<close>; \<open>(0, 0)\<close> is disarmed.\<close>

type_synonym itimer_value = "int \<times> int"

text \<open>The events of the state machine that the modelled functions raise.\<close>

datatype sm_event = EvDoorClosed | EvDoorOpened | EvError

record engine =
  printerStatus :: PrinterStatus
  statusWriteFd :: int
  statusPipe :: "PrinterStatus list"
  exposureTimer :: itimer_value
  motorTimeoutTimer :: itimer_value
  motorWrites :: "motor_write list"
  awaitingMotorSettingAck :: bool
  motorSettings :: "(setting_key \<times> command_template) list"
  haveHardware :: bool
  invertDoorSwitch :: bool
  logged :: "log_entry list"
  pendingExposureInfo :: bool
  injected :: "sm_event list"

text \<open>
  The fields \<open>pendingExposureInfo\<close> and \<open>injected\<close> belong to the state machine, which
  is not part of the sources: the exposure that a door opening interrupted, and the
  fault events that have been injected and wait to be processed.

  The environment of a call: the settings store, the outcome of the system calls, the
  projector, and the scaling macros of the motor controller's header, which is not part
  of the sources.
\<close>

record env =
  GetInt :: "setting_key \<Rightarrow> int"
  GetDouble :: "setting_key \<Rightarrow> real"
  current_errno :: int
  timerfd_settime_ok :: "timer_fd \<Rightarrow> itimer_value \<Rightarrow> bool"
  LoadImageForLayer :: "int \<Rightarrow> bool"
  R_SCALE_FACTOR :: int
  R_SPEED_FACTOR :: int
  Z_SPEED_FACTOR :: int
  UNITS_PER_REVOLUTION :: int

definition INT_MAX :: int where
  "INT_MAX = 2147483647"

text \<open>
  The result of an \<open>int\<close> operation: the mathematical result taken into the 32-bit
  two's complement range.  (Signed overflow is undefined in C; the compiled code
  wraps around.)
\<close>

definition int32 :: "int \<Rightarrow> int" where
  "int32 x = (x + 2147483648) mod 4294967296 - 2147483648"

text \<open>The values an \<open>int\<close> can hold.\<close>

definition in_int32 :: "int \<Rightarrow> bool" where
  "in_int32 x = (- 2147483648 \<le> x \<and> x \<le> 2147483647)"

definition VIDEOFRAME__SEC :: real where
  "VIDEOFRAME__SEC = 1 / 60"

text \<open>C's conversion \<open>(int) x\<close> of a double: truncation towards zero.\<close>

definition c_int_of_double :: "real \<Rightarrow> int" where
  "c_int_of_double x = (if 0 \<le> x then \<lfloor>x\<rfloor> else \<lceil>x\<rceil>)"

text \<open>
  C's integer division: the quotient truncated towards zero.  The only divisor in the
  sources is the macro \<open>R_SCALE_FACTOR\<close>, a non-zero constant.
\<close>

definition c_div :: "int \<Rightarrow> int \<Rightarrow> int" where
  "c_div a b = sgn a * sgn b * (\<bar>a\<bar> div \<bar>b\<bar>)"

section \<open>PrintEngine\<close>

text \<open>
  \<open>SendStatus(state, change, substate)\<close>.  Modelled from the spec: the default
  arguments are in the absent header; the specification gives \<open>change = NoChange\<close> and
  the current sub-state, which is what \<open>SendStatus1\<close> passes.
\<close>

definition SendStatus :: "PrintEngineState \<Rightarrow> StateChange \<Rightarrow> UISubState \<Rightarrow> engine \<Rightarrow> engine" where
  "SendStatus st ch sub e =
     (let ps = (printerStatus e)\<lparr>state := st, UISubState := sub, change := ch\<rparr>;
          e1 = e\<lparr>printerStatus := ps\<rparr>
      in if statusWriteFd e1 \<ge> 0 then e1\<lparr>statusPipe := statusPipe e1 @ [ps]\<rparr> else e1)"

definition SendStatus1 :: "PrintEngineState \<Rightarrow> engine \<Rightarrow> engine" where
  "SendStatus1 st e = SendStatus st NoChange (UISubState (printerStatus e)) e"

text \<open>
  \<open>HandleError(code, fatal, str, value)\<close>.  The state machine is not part of the
  sources: its \<open>HandleFatalError\<close> is the parameter \<open>sm\<close>, any function on the engine.
\<close>

definition HandleError ::
  "(engine \<Rightarrow> engine) \<Rightarrow> env \<Rightarrow> ErrorCode \<Rightarrow> bool \<Rightarrow> string option \<Rightarrow> int \<Rightarrow> engine \<Rightarrow> engine" where
  "HandleError sm ev code fatal str val e =
     (let origErrno = current_errno ev;
          prio = (if fatal then LOG_ERR else LOG_WARNING);
          arg = (case str of Some s \<Rightarrow> StrArg s
                 | None \<Rightarrow> if val \<noteq> INT_MAX then IntArg val else NoArg);
          e1 = e\<lparr>logged := logged e @ [(prio, origErrno, code, arg)]\<rparr>;
          e2 = e1\<lparr>printerStatus :=
                 (printerStatus e1)\<lparr>errorCode := code, errno := origErrno, isError := True\<rparr>\<rparr>;
          e3 = SendStatus1 (state (printerStatus e2)) e2;
          e4 = (if fatal then sm e3 else e3)
      in e4\<lparr>printerStatus := (printerStatus e4)\<lparr>isError := False\<rparr>\<rparr>)"

definition ClearError :: "engine \<Rightarrow> engine" where
  "ClearError e =
     e\<lparr>printerStatus := (printerStatus e)\<lparr>errorCode := Success, errno := 0, isError := False\<rparr>\<rparr>"

definition StartExposureTimer :: "(engine \<Rightarrow> engine) \<Rightarrow> env \<Rightarrow> real \<Rightarrow> engine \<Rightarrow> engine" where
  "StartExposureTimer sm ev seconds e =
     (let tv_sec = c_int_of_double seconds;
          tv_nsec = c_int_of_double (1000000000 * (seconds - of_int tv_sec))
      in if timerfd_settime_ok ev ExposureTimerFD (tv_sec, tv_nsec)
         then e\<lparr>exposureTimer := (tv_sec, tv_nsec)\<rparr>
         else HandleError sm ev ExposureTimer True None INT_MAX e)"

definition ClearExposureTimer :: "(engine \<Rightarrow> engine) \<Rightarrow> env \<Rightarrow> engine \<Rightarrow> engine" where
  "ClearExposureTimer sm ev e = StartExposureTimer sm ev 0 e"

definition StartMotorTimeoutTimer :: "(engine \<Rightarrow> engine) \<Rightarrow> env \<Rightarrow> int \<Rightarrow> engine \<Rightarrow> engine" where
  "StartMotorTimeoutTimer sm ev seconds e =
     (if timerfd_settime_ok ev MotorTimeoutTimerFD (seconds, 0)
      then e\<lparr>motorTimeoutTimer := (seconds, 0)\<rparr>
      else HandleError sm ev MotorTimeoutTimer True None INT_MAX e)"

definition ClearMotorTimeoutTimer :: "(engine \<Rightarrow> engine) \<Rightarrow> env \<Rightarrow> engine \<Rightarrow> engine" where
  "ClearMotorTimeoutTimer sm ev e = StartMotorTimeoutTimer sm ev 0 e"

definition IsFirstLayer :: "engine \<Rightarrow> bool" where
  "IsFirstLayer e = (currentLayer (printerStatus e) = 1)"

definition IsBurnInLayer :: "env \<Rightarrow> engine \<Rightarrow> bool" where
  "IsBurnInLayer ev e =
     (let numBurnInLayers = GetInt ev BURN_IN_LAYERS
      in numBurnInLayers > 0 \<and> currentLayer (printerStatus e) > 1 \<and>
         currentLayer (printerStatus e) \<le> int32 (1 + numBurnInLayers))"

definition GetExposureTimeSec :: "env \<Rightarrow> engine \<Rightarrow> real" where
  "GetExposureTimeSec ev e =
     (let expTime = (if IsFirstLayer e then GetDouble ev FIRST_EXPOSURE
                     else if IsBurnInLayer ev e then GetDouble ev BURN_IN_EXPOSURE
                     else GetDouble ev MODEL_EXPOSURE)
      in if expTime > VIDEOFRAME__SEC then expTime - VIDEOFRAME__SEC else expTime)"

definition SetNumLayers :: "int \<Rightarrow> engine \<Rightarrow> engine" where
  "SetNumLayers n e =
     e\<lparr>printerStatus := (printerStatus e)\<lparr>numLayers := n, currentLayer := 0\<rparr>\<rparr>"

definition SendMotorCommand :: "motor_command_byte \<Rightarrow> engine \<Rightarrow> engine" where
  "SendMotorCommand command e = e\<lparr>motorWrites := motorWrites e @ [WriteByte command]\<rparr>"

definition SendMotorCommandString :: "command_template \<Rightarrow> int \<Rightarrow> engine \<Rightarrow> engine" where
  "SendMotorCommandString cmdString val e =
     e\<lparr>motorWrites := motorWrites e @ [WriteString cmdString val]\<rparr>"

definition StopMotor :: "(engine \<Rightarrow> engine) \<Rightarrow> env \<Rightarrow> engine \<Rightarrow> engine" where
  "StopMotor sm ev e = ClearMotorTimeoutTimer sm ev (SendMotorCommand STOP_MOTOR_COMMAND e)"

text \<open>
  Modelled from the spec: \<open>Exposing::ClearPendingExposureInfo\<close> is a static member of a
  state class that is not part of the sources; it forgets the exposure that a door
  opening interrupted and touches nothing of the engine.
\<close>

definition ClearPendingExposureInfo :: "engine \<Rightarrow> engine" where
  "ClearPendingExposureInfo e = e\<lparr>pendingExposureInfo := False\<rparr>"

definition CancelPrint :: "(engine \<Rightarrow> engine) \<Rightarrow> env \<Rightarrow> engine \<Rightarrow> engine" where
  "CancelPrint sm ev e =
     ClearPendingExposureInfo (ClearExposureTimer sm ev (SetNumLayers 0 (StopMotor sm ev e)))"

text \<open>\<open>NextLayer\<close> returns the layer number and the new engine state.\<close>

definition NextLayer :: "(engine \<Rightarrow> engine) \<Rightarrow> env \<Rightarrow> engine \<Rightarrow> int \<times> engine" where
  "NextLayer sm ev e =
     (let e1 = e\<lparr>printerStatus :=
                 (printerStatus e)\<lparr>currentLayer := currentLayer (printerStatus e) + 1\<rparr>\<rparr>;
          e2 = (if \<not> LoadImageForLayer ev (currentLayer (printerStatus e1))
                then CancelPrint sm ev
                       (HandleError sm ev NoImageForLayer True None
                          (currentLayer (printerStatus e1)) e1)
                else e1)
      in (currentLayer (printerStatus e2), e2))"

text \<open>
  \<open>DoorCallback\<close> hands one event to the state machine; the model returns that event.
\<close>

definition DoorCallback :: "engine \<Rightarrow> char \<Rightarrow> sm_event" where
  "DoorCallback e data_byte =
     (if data_byte = (if invertDoorSwitch e then CHR ''1'' else CHR ''0'')
      then EvDoorClosed else EvDoorOpened)"

text \<open>
  \<open>DoorIsOpen\<close>.  The argument \<open>gpio\<close> is what the GPIO value file gives: \<open>None\<close> when
  it cannot be opened, else the byte read.  The result is \<open>None\<close> when the process
  exits.  \<open>pin\<close> is the macro \<open>DOOR_INTERRUPT_PIN\<close> of an absent header.
\<close>

definition DoorIsOpen ::
  "(engine \<Rightarrow> engine) \<Rightarrow> env \<Rightarrow> int \<Rightarrow> char option \<Rightarrow> engine \<Rightarrow> bool option \<times> engine" where
  "DoorIsOpen sm ev pin gpio e =
     (if \<not> haveHardware e then (Some False, e)
      else case gpio of
             None \<Rightarrow> (None, HandleError sm ev GpioInput True None pin e)
           | Some v \<Rightarrow> (Some (v = (if invertDoorSwitch e then CHR ''0'' else CHR ''1'')), e))"

text \<open>
  The constructor, on the path where the process is not terminated; \<open>wfd\<close> is the
  descriptor that opening the status pipe for writing returned.  The status fields are
  the ones \<open>Initialize\<close> sets.
\<close>

definition PrintEngine :: "env \<Rightarrow> bool \<Rightarrow> int \<Rightarrow> engine" where
  "PrintEngine ev hw wfd =
     \<lparr>printerStatus =
        \<lparr>state = InitializingState, UISubState = NoUISubState, change = NoChange,
         currentLayer = 0, numLayers = 0, estimatedSecondsRemaining = 0,
         errorCode = Success, errno = 0, isError = False\<rparr>,
      statusWriteFd = wfd, statusPipe = [], exposureTimer = (0, 0),
      motorTimeoutTimer = (0, 0), motorWrites = [], awaitingMotorSettingAck = False,
      motorSettings = [], haveHardware = hw,
      invertDoorSwitch = (GetInt ev HARDWARE_REV = 0), logged = [],
      pendingExposureInfo = False, injected = []\<rparr>"

text \<open>
  \<open>SendSettings\<close> takes the first entry of the pending settings, erases it, and then
  compares the key through the erased iterator.  Nothing is allocated between the
  erasure and the comparison, so the node still holds the key of the erased entry,
  \<open>it_first\<close>.  The result is the returned flag and the new engine state.
\<close>

definition SendSettings :: "(engine \<Rightarrow> engine) \<Rightarrow> env \<Rightarrow> engine \<Rightarrow> bool \<times> engine" where
  "SendSettings sm ev e =
     (case motorSettings e of
        [] \<Rightarrow> (True, e)
      | (it_first, it_second) # rest \<Rightarrow>
          (let val = GetInt ev it_first;
               cmdString = it_second;
               e1 = e\<lparr>motorSettings := rest\<rparr>;
               send = (False, SendMotorCommandString cmdString val
                                (e1\<lparr>awaitingMotorSettingAck := True\<rparr>))
           in if it_first = SEPARATION_RPM
              then (if val < 0 \<or> val > 9
                    then (let e2 = HandleError sm ev SeparationRpmOutOfRange False None val e1
                          in (length (motorSettings e2) = 0, e2))
                    else send)
              else send))"

section \<open>Motor\<close>

datatype motor_register =
  MC_GENERAL_REG | MC_Z_SETTINGS_REG | MC_Z_ACTION_REG | MC_ROT_SETTINGS_REG | MC_ROT_ACTION_REG

datatype motor_action =
  MC_ENABLE | MC_DISABLE | MC_PAUSE | MC_RESUME | MC_CLEAR | MC_RESET | MC_INTERRUPT
| MC_HOME | MC_MOVE | MC_STEP_ANGLE | MC_UNITS_PER_REV | MC_MICROSTEPPING | MC_JERK | MC_SPEED

text \<open>A command: register, action, and the parameter when the constructor is given one.\<close>

datatype MotorCommand = MotorCommand motor_register motor_action "int option"

type_synonym LayerSettings = "int \<Rightarrow> setting_key \<Rightarrow> int"

text \<open>
  Modelled from the spec: \<open>MotorCommand::Send\<close> is not part of the sources.  It is a
  synchronous write on the I2C bus that reports success or failure.  The bus is the
  sequence of commands whose transmission has been attempted, and whether a transmission
  succeeds is the environment's choice, given what went before.
\<close>

type_synonym i2c_bus = "MotorCommand list"

type_synonym transmitter = "i2c_bus \<Rightarrow> MotorCommand \<Rightarrow> bool"

definition Send :: "transmitter \<Rightarrow> MotorCommand \<Rightarrow> i2c_bus \<Rightarrow> bool \<times> i2c_bus" where
  "Send tx c bus = (tx bus c, bus @ [c])"

fun SendCommands :: "transmitter \<Rightarrow> MotorCommand list \<Rightarrow> i2c_bus \<Rightarrow> bool \<times> i2c_bus" where
  "SendCommands tx [] bus = (True, bus)"
| "SendCommands tx (c # commands) bus =
     (case Send tx c bus of
        (ok, bus1) \<Rightarrow> if \<not> ok then (False, bus1) else SendCommands tx commands bus1)"

definition GoHome_commands :: "env \<Rightarrow> bool \<Rightarrow> MotorCommand list" where
  "GoHome_commands ev withInterrupt =
     (let homeAngle = int32 (c_div (GetInt ev R_HOMING_ANGLE) (R_SCALE_FACTOR ev))
      in [MotorCommand MC_ROT_SETTINGS_REG MC_JERK (Some (GetInt ev R_HOMING_JERK)),
          MotorCommand MC_ROT_SETTINGS_REG MC_SPEED
            (Some (int32 (R_SPEED_FACTOR ev * GetInt ev R_HOMING_SPEED))),
          MotorCommand MC_ROT_ACTION_REG MC_HOME (Some (UNITS_PER_REVOLUTION ev))] @
         (if homeAngle \<noteq> 0 then [MotorCommand MC_ROT_ACTION_REG MC_MOVE (Some homeAngle)]
          else []) @
         [MotorCommand MC_Z_SETTINGS_REG MC_JERK (Some (GetInt ev Z_HOMING_JERK)),
          MotorCommand MC_Z_SETTINGS_REG MC_SPEED
            (Some (int32 (Z_SPEED_FACTOR ev * GetInt ev Z_HOMING_SPEED))),
          MotorCommand MC_Z_ACTION_REG MC_HOME
            (Some (int32 (- 2 * GetInt ev Z_START_PRINT_POSITION)))] @
         (if withInterrupt then [MotorCommand MC_GENERAL_REG MC_INTERRUPT None] else []))"

definition GoHome :: "transmitter \<Rightarrow> env \<Rightarrow> bool \<Rightarrow> i2c_bus \<Rightarrow> bool \<times> i2c_bus" where
  "GoHome tx ev withInterrupt bus = SendCommands tx (GoHome_commands ev withInterrupt) bus"

definition GoToStartPosition_commands :: "env \<Rightarrow> MotorCommand list" where
  "GoToStartPosition_commands ev =
     (let startAngle = int32 (c_div (GetInt ev R_START_PRINT_ANGLE) (R_SCALE_FACTOR ev))
      in [MotorCommand MC_ROT_SETTINGS_REG MC_JERK (Some (GetInt ev R_START_PRINT_JERK)),
          MotorCommand MC_ROT_SETTINGS_REG MC_SPEED
            (Some (int32 (R_SPEED_FACTOR ev * GetInt ev R_START_PRINT_SPEED)))] @
         (if startAngle \<noteq> 0 then [MotorCommand MC_ROT_ACTION_REG MC_MOVE (Some startAngle)]
          else []) @
         [MotorCommand MC_Z_SETTINGS_REG MC_JERK (Some (GetInt ev Z_START_PRINT_JERK)),
          MotorCommand MC_Z_SETTINGS_REG MC_SPEED
            (Some (int32 (Z_SPEED_FACTOR ev * GetInt ev Z_START_PRINT_SPEED))),
          MotorCommand MC_Z_ACTION_REG MC_MOVE (Some (GetInt ev Z_START_PRINT_POSITION)),
          MotorCommand MC_GENERAL_REG MC_INTERRUPT None])"

text \<open>\<open>GoToStartPosition\<close> calls \<open>GoHome(false)\<close> and drops what it returns.\<close>

definition GoToStartPosition :: "transmitter \<Rightarrow> env \<Rightarrow> i2c_bus \<Rightarrow> bool \<times> i2c_bus" where
  "GoToStartPosition tx ev bus =
     (case GoHome tx ev False bus of
        (ignored, bus1) \<Rightarrow> SendCommands tx (GoToStartPosition_commands ev) bus1)"

definition Separate_commands :: "env \<Rightarrow> LayerType \<Rightarrow> int \<Rightarrow> LayerSettings \<Rightarrow> MotorCommand list" where
  "Separate_commands ev currentLayerType nextLayerNum ls =
     (let (rSeparationJerk, rSeparationSpeed, rotation, zSeparationJerk, zSeparationSpeed,
           deltaZ) =
            (case currentLayerType of
               First \<Rightarrow>
                 (ls nextLayerNum FL_SEPARATION_R_JERK, ls nextLayerNum FL_SEPARATION_R_SPEED,
                  ls nextLayerNum FL_ROTATION, ls nextLayerNum FL_SEPARATION_Z_JERK,
                  ls nextLayerNum FL_SEPARATION_Z_SPEED, ls nextLayerNum FL_Z_LIFT)
             | BurnIn \<Rightarrow>
                 (ls nextLayerNum BI_SEPARATION_R_JERK, ls nextLayerNum BI_SEPARATION_R_SPEED,
                  ls nextLayerNum BI_ROTATION, ls nextLayerNum BI_SEPARATION_Z_JERK,
                  ls nextLayerNum BI_SEPARATION_Z_SPEED, ls nextLayerNum BI_Z_LIFT)
             | Model \<Rightarrow>
                 (ls nextLayerNum ML_SEPARATION_R_JERK, ls nextLayerNum ML_SEPARATION_R_SPEED,
                  ls nextLayerNum ML_ROTATION, ls nextLayerNum ML_SEPARATION_Z_JERK,
                  ls nextLayerNum ML_SEPARATION_Z_SPEED, ls nextLayerNum ML_Z_LIFT));
          rSeparationSpeed = int32 (rSeparationSpeed * R_SPEED_FACTOR ev);
          zSeparationSpeed = int32 (zSeparationSpeed * Z_SPEED_FACTOR ev);
          rotation = int32 (c_div rotation (R_SCALE_FACTOR ev))
      in [MotorCommand MC_ROT_SETTINGS_REG MC_JERK (Some rSeparationJerk),
          MotorCommand MC_ROT_SETTINGS_REG MC_SPEED (Some rSeparationSpeed)] @
         (if rotation \<noteq> 0
          then [MotorCommand MC_ROT_ACTION_REG MC_MOVE (Some (int32 (- rotation)))]
          else []) @
         [MotorCommand MC_Z_SETTINGS_REG MC_JERK (Some zSeparationJerk),
          MotorCommand MC_Z_SETTINGS_REG MC_SPEED (Some zSeparationSpeed)] @
         (if deltaZ \<noteq> 0 then [MotorCommand MC_Z_ACTION_REG MC_MOVE (Some deltaZ)] else []) @
         [MotorCommand MC_GENERAL_REG MC_INTERRUPT None])"

definition Separate ::
  "transmitter \<Rightarrow> env \<Rightarrow> LayerType \<Rightarrow> int \<Rightarrow> LayerSettings \<Rightarrow> i2c_bus \<Rightarrow> bool \<times> i2c_bus" where
  "Separate tx ev currentLayerType nextLayerNum ls bus =
     SendCommands tx (Separate_commands ev currentLayerType nextLayerNum ls) bus"

definition UnJam_commands ::
  "env \<Rightarrow> LayerType \<Rightarrow> int \<Rightarrow> LayerSettings \<Rightarrow> bool \<Rightarrow> MotorCommand list" where
  "UnJam_commands ev currentLayerType nextLayerNum ls withInterrupt =
     (let rotation = (case currentLayerType of
                        First \<Rightarrow> ls nextLayerNum FL_ROTATION
                      | BurnIn \<Rightarrow> ls nextLayerNum BI_ROTATION
                      | Model \<Rightarrow> ls nextLayerNum ML_ROTATION);
          rotation = int32 (c_div rotation (R_SCALE_FACTOR ev))
      in [MotorCommand MC_ROT_ACTION_REG MC_HOME (Some (UNITS_PER_REVOLUTION ev))] @
         (if rotation \<noteq> 0
          then [MotorCommand MC_ROT_ACTION_REG MC_MOVE (Some (int32 (- rotation)))]
          else []) @
         (if withInterrupt then [MotorCommand MC_GENERAL_REG MC_INTERRUPT None] else []))"

definition UnJam ::
  "transmitter \<Rightarrow> env \<Rightarrow> LayerType \<Rightarrow> int \<Rightarrow> LayerSettings \<Rightarrow> bool \<Rightarrow> i2c_bus
     \<Rightarrow> bool \<times> i2c_bus" where
  "UnJam tx ev currentLayerType nextLayerNum ls withInterrupt bus =
     SendCommands tx (UnJam_commands ev currentLayerType nextLayerNum ls withInterrupt) bus"

definition Approach_commands :: "env \<Rightarrow> LayerType \<Rightarrow> int \<Rightarrow> LayerSettings \<Rightarrow> MotorCommand list" where
  "Approach_commands ev currentLayerType nextLayerNum ls =
     (let thickness = ls nextLayerNum LAYER_THICKNESS;
          (deltaZ, rApproachJerk, rApproachSpeed, rotation, zApproachJerk, zApproachSpeed) =
            (case currentLayerType of
               First \<Rightarrow>
                 (ls nextLayerNum FL_Z_LIFT, ls nextLayerNum FL_APPROACH_R_JERK,
                  ls nextLayerNum FL_APPROACH_R_SPEED, ls nextLayerNum FL_ROTATION,
                  ls nextLayerNum FL_APPROACH_Z_JERK, ls nextLayerNum FL_APPROACH_Z_SPEED)
             | BurnIn \<Rightarrow>
                 (ls nextLayerNum BI_Z_LIFT, ls nextLayerNum BI_APPROACH_R_JERK,
                  ls nextLayerNum BI_APPROACH_R_SPEED, ls nextLayerNum BI_ROTATION,
                  ls nextLayerNum BI_APPROACH_Z_JERK, ls nextLayerNum BI_APPROACH_Z_SPEED)
             | Model \<Rightarrow>
                 (ls nextLayerNum ML_Z_LIFT, ls nextLayerNum ML_APPROACH_R_JERK,
                  ls nextLayerNum ML_APPROACH_R_SPEED, ls nextLayerNum ML_ROTATION,
                  ls nextLayerNum ML_APPROACH_Z_JERK, ls nextLayerNum ML_APPROACH_Z_SPEED));
          rApproachSpeed = int32 (rApproachSpeed * R_SPEED_FACTOR ev);
          zApproachSpeed = int32 (zApproachSpeed * Z_SPEED_FACTOR ev);
          rotation = int32 (c_div rotation (R_SCALE_FACTOR ev))
      in [MotorCommand MC_ROT_SETTINGS_REG MC_JERK (Some rApproachJerk),
          MotorCommand MC_ROT_SETTINGS_REG MC_SPEED (Some rApproachSpeed)] @
         (if rotation \<noteq> 0 then [MotorCommand MC_ROT_ACTION_REG MC_MOVE (Some rotation)]
          else []) @
         [MotorCommand MC_Z_SETTINGS_REG MC_JERK (Some zApproachJerk),
          MotorCommand MC_Z_SETTINGS_REG MC_SPEED (Some zApproachSpeed)] @
         (if thickness \<noteq> deltaZ
          then [MotorCommand MC_Z_ACTION_REG MC_MOVE (Some (int32 (thickness - deltaZ)))]
          else []) @
         [MotorCommand MC_GENERAL_REG MC_INTERRUPT None])"

definition Approach ::
  "transmitter \<Rightarrow> env \<Rightarrow> LayerType \<Rightarrow> int \<Rightarrow> LayerSettings \<Rightarrow> bool \<Rightarrow> i2c_bus
     \<Rightarrow> bool \<times> i2c_bus" where
  "Approach tx ev currentLayerType nextLayerNum ls unJamFirst bus =
     (if unJamFirst
      then (case UnJam tx ev currentLayerType nextLayerNum ls False bus of
              (ok, bus1) \<Rightarrow>
                if \<not> ok then (False, bus1)
                else SendCommands tx (Approach_commands ev currentLayerType nextLayerNum ls) bus1)
      else SendCommands tx (Approach_commands ev currentLayerType nextLayerNum ls) bus)"

definition PauseAndInspect_commands :: "env \<Rightarrow> int \<Rightarrow> MotorCommand list" where
  "PauseAndInspect_commands ev rotation0 =
     (let rotation = int32 (c_div rotation0 (R_SCALE_FACTOR ev));
          h = GetInt ev INSPECTION_HEIGHT
      in [MotorCommand MC_ROT_SETTINGS_REG MC_JERK (Some (GetInt ev R_HOMING_JERK)),
          MotorCommand MC_ROT_SETTINGS_REG MC_SPEED
            (Some (int32 (R_SPEED_FACTOR ev * GetInt ev R_HOMING_SPEED))),
          MotorCommand MC_Z_SETTINGS_REG MC_JERK (Some (GetInt ev Z_HOMING_JERK)),
          MotorCommand MC_Z_SETTINGS_REG MC_SPEED
            (Some (int32 (Z_SPEED_FACTOR ev * GetInt ev Z_HOMING_SPEED)))] @
         (if rotation \<noteq> 0
          then [MotorCommand MC_ROT_ACTION_REG MC_MOVE (Some (int32 (- rotation)))]
          else []) @
         (if h \<noteq> 0 then [MotorCommand MC_Z_ACTION_REG MC_MOVE (Some h)] else []) @
         [MotorCommand MC_GENERAL_REG MC_INTERRUPT None])"

definition PauseAndInspect :: "transmitter \<Rightarrow> env \<Rightarrow> int \<Rightarrow> i2c_bus \<Rightarrow> bool \<times> i2c_bus" where
  "PauseAndInspect tx ev rotation bus = SendCommands tx (PauseAndInspect_commands ev rotation) bus"

definition ResumeFromInspect_commands :: "env \<Rightarrow> int \<Rightarrow> MotorCommand list" where
  "ResumeFromInspect_commands ev rotation0 =
     (let rotation = int32 (c_div rotation0 (R_SCALE_FACTOR ev));
          h = GetInt ev INSPECTION_HEIGHT
      in [MotorCommand MC_ROT_SETTINGS_REG MC_JERK (Some (GetInt ev R_START_PRINT_JERK)),
          MotorCommand MC_ROT_SETTINGS_REG MC_SPEED
            (Some (int32 (R_SPEED_FACTOR ev * GetInt ev R_START_PRINT_SPEED))),
          MotorCommand MC_Z_SETTINGS_REG MC_JERK (Some (GetInt ev Z_START_PRINT_JERK)),
          MotorCommand MC_Z_SETTINGS_REG MC_SPEED
            (Some (int32 (Z_SPEED_FACTOR ev * GetInt ev Z_START_PRINT_SPEED)))] @
         (if rotation \<noteq> 0 then [MotorCommand MC_ROT_ACTION_REG MC_MOVE (Some rotation)]
          else []) @
         (if h \<noteq> 0 then [MotorCommand MC_Z_ACTION_REG MC_MOVE (Some (int32 (- h)))]
          else []) @
         [MotorCommand MC_GENERAL_REG MC_INTERRUPT None])"

definition ResumeFromInspect :: "transmitter \<Rightarrow> env \<Rightarrow> int \<Rightarrow> i2c_bus \<Rightarrow> bool \<times> i2c_bus" where
  "ResumeFromInspect tx ev rotation bus =
     SendCommands tx (ResumeFromInspect_commands ev rotation) bus"

text \<open>Reading a batch: its move actions, and the moves whose amount is zero.\<close>

fun is_move :: "MotorCommand \<Rightarrow> bool" where
  "is_move (MotorCommand r a v) = (a = MC_MOVE)"

fun is_zero_move :: "MotorCommand \<Rightarrow> bool" where
  "is_zero_move (MotorCommand r a v) = (a = MC_MOVE \<and> v = Some 0)"

text \<open>The per-layer setting of a layer type, as the \<open>switch\<close> statements choose it.\<close>

fun layer_key :: "LayerType \<Rightarrow> layer_param \<Rightarrow> setting_key" where
  "layer_key First p = FL_KEY p"
| "layer_key BurnIn p = BI_KEY p"
| "layer_key Model p = ML_KEY p"

text \<open>
  Modelled from the spec: \<open>PrinterStateMachine::HandleFatalError\<close> is not part of the
  sources.  By the specification (4.5, 5) a fatal error injects a fault event into the
  state machine, and events are processed one after the other, each handler running to
  completion before the next event is taken.  So the handler only records the event.
\<close>

definition HandleFatalError_spec :: "engine \<Rightarrow> engine" where
  "HandleFatalError_spec e = e\<lparr>injected := injected e @ [EvError]\<rparr>"

text \<open>
  Modelled from the spec: the state machine's reaction to the fault event is not part of
  the sources.  By the specification (4.6) the event moves the machine to \<open>Error\<close> after
  \<open>stop_motor\<close> and \<open>cancel_print\<close>, and the entry into a state is published as a status
  record.  Without a pending fault event nothing happens.
\<close>

definition process_EvError :: "(engine \<Rightarrow> engine) \<Rightarrow> env \<Rightarrow> engine \<Rightarrow> engine" where
  "process_EvError sm ev e =
     (case injected e of
        EvError # rest \<Rightarrow>
          (let e1 = CancelPrint sm ev (StopMotor sm ev (e\<lparr>injected := rest\<rparr>))
           in SendStatus ErrorState Entering (UISubState (printerStatus e1)) e1)
      | _ \<Rightarrow> e)"

subsection \<open>Example inputs\<close>

definition example_ints :: "setting_key \<Rightarrow> int" where
  "example_ints k =
     (case k of BURN_IN_LAYERS \<Rightarrow> 1 | HARDWARE_REV \<Rightarrow> 0 | SEPARATION_RPM \<Rightarrow> 12
      | LAYER_THICKNESS \<Rightarrow> 25 | R_HOMING_ANGLE \<Rightarrow> - 60000 | R_START_PRINT_ANGLE \<Rightarrow> 60000
      | Z_START_PRINT_POSITION \<Rightarrow> - 165000 | INSPECTION_HEIGHT \<Rightarrow> 60000
      | FL_KEY p \<Rightarrow> (case p of ROTATION \<Rightarrow> 60000 | Z_LIFT \<Rightarrow> 2000 | _ \<Rightarrow> 7)
      | BI_KEY p \<Rightarrow> (case p of ROTATION \<Rightarrow> 60000 | Z_LIFT \<Rightarrow> 2000 | _ \<Rightarrow> 8)
      | ML_KEY p \<Rightarrow> (case p of ROTATION \<Rightarrow> 60000 | Z_LIFT \<Rightarrow> 1000 | _ \<Rightarrow> 9)
      | _ \<Rightarrow> 5)"

definition example_doubles :: "setting_key \<Rightarrow> real" where
  "example_doubles k =
     (case k of FIRST_EXPOSURE \<Rightarrow> 2 | BURN_IN_EXPOSURE \<Rightarrow> 3 / 2 | MODEL_EXPOSURE \<Rightarrow> 1
      | _ \<Rightarrow> 0)"

definition always_ok :: "timer_fd \<Rightarrow> itimer_value \<Rightarrow> bool" where
  "always_ok fd v = True"

definition three_images :: "int \<Rightarrow> bool" where
  "three_images n = (1 \<le> n \<and> n \<le> 3)"

definition example_env :: env where
  "example_env =
     \<lparr>GetInt = example_ints, GetDouble = example_doubles, current_errno = 0,
      timerfd_settime_ok = always_ok, LoadImageForLayer = three_images,
      R_SCALE_FACTOR = 10, R_SPEED_FACTOR = 100,
      Z_SPEED_FACTOR = 1000, UNITS_PER_REVOLUTION = 36000\<rparr>"

text \<open>An engine in the middle of a print: layer \<open>l\<close> of \<open>n\<close>, both timers armed.\<close>

definition printing_engine :: "int \<Rightarrow> int \<Rightarrow> engine" where
  "printing_engine l n =
     (PrintEngine example_env True 4)
       \<lparr>printerStatus :=
          \<lparr>state = ExposingState, UISubState = NoUISubState, change = Entering,
           currentLayer = l, numLayers = n, estimatedSecondsRemaining = 100,
           errorCode = Success, errno = 0, isError = False\<rparr>,
        exposureTimer := (1, 500000000), motorTimeoutTimer := (30, 0),
        pendingExposureInfo := True\<rparr>"

definition short_exposures :: "setting_key \<Rightarrow> real" where
  "short_exposures k = 1 / 100"

definition short_exposure_env :: env where
  "short_exposure_env = example_env\<lparr>GetDouble := short_exposures\<rparr>"

definition example_ls :: LayerSettings where
  "example_ls n k = example_ints k"

definition accept_all :: transmitter where
  "accept_all bus c = True"

definition first_fails :: transmitter where
  "first_fails bus c = (bus \<noteq> [])"

definition zero_start_ints :: "setting_key \<Rightarrow> int" where
  "zero_start_ints k = (if k = Z_START_PRINT_POSITION then 0 else example_ints k)"

definition zero_start_env :: env where
  "zero_start_env = example_env\<lparr>GetInt := zero_start_ints\<rparr>"

text \<open>Pending settings with the separation speed first (its example value is 12).\<close>

definition pending_rpm_engine :: engine where
  "pending_rpm_engine =
     (PrintEngine example_env True 4)
       \<lparr>motorSettings := [(SEPARATION_RPM, SEPARATION_RPM_COMMAND),
                          (LAYER_THICKNESS, LAYER_THICKNESS_COMMAND)]\<rparr>"

definition last_rpm_engine :: engine where
  "last_rpm_engine =
     (PrintEngine example_env True 4)
       \<lparr>motorSettings := [(SEPARATION_RPM, SEPARATION_RPM_COMMAND)]\<rparr>"

definition slow_rpm_ints :: "setting_key \<Rightarrow> int" where
  "slow_rpm_ints k = (if k = SEPARATION_RPM then 4 else example_ints k)"

definition slow_rpm_env :: env where
  "slow_rpm_env = example_env\<lparr>GetInt := slow_rpm_ints\<rparr>"

text \<open>A later hardware revision.\<close>

definition rev1_ints :: "setting_key \<Rightarrow> int" where
  "rev1_ints k = (if k = HARDWARE_REV then 1 else example_ints k)"

definition rev1_env :: env where
  "rev1_env = example_env\<lparr>GetInt := rev1_ints\<rparr>"

text \<open>The largest burn-in count an \<open>int\<close> setting can hold.\<close>

definition max_burn_in_ints :: "setting_key \<Rightarrow> int" where
  "max_burn_in_ints k = (if k = BURN_IN_LAYERS then 2147483647 else example_ints k)"

definition max_burn_in_env :: env where
  "max_burn_in_env = example_env\<lparr>GetInt := max_burn_in_ints\<rparr>"

text \<open>Layer settings whose thickness and Z lift are far apart.\<close>

definition far_apart_ls :: LayerSettings where
  "far_apart_ls n k =
     (if k = LAYER_THICKNESS then 2000000000
      else if k = ML_Z_LIFT then - 2000000000 else example_ints k)"

text \<open>The exposure setting that \<open>GetExposureTimeSec\<close> reads for the current layer.\<close>

definition configured_exposure :: "env \<Rightarrow> engine \<Rightarrow> real" where
  "configured_exposure ev e =
     (if currentLayer (printerStatus e) = 1 then GetDouble ev FIRST_EXPOSURE
      else if GetInt ev BURN_IN_LAYERS > 0 \<and> 2 \<le> currentLayer (printerStatus e) \<and>
              currentLayer (printerStatus e) \<le> int32 (1 + GetInt ev BURN_IN_LAYERS)
           then GetDouble ev BURN_IN_EXPOSURE
      else GetDouble ev MODEL_EXPOSURE)"

text \<open>
  The status record that \<open>HandleError\<close> publishes for an error: the current status with
  the error fields set and the new-error flag raised.
\<close>

definition error_record :: "env \<Rightarrow> ErrorCode \<Rightarrow> engine \<Rightarrow> PrinterStatus" where
  "error_record ev code e =
     (printerStatus e)\<lparr>change := NoChange, errorCode := code, errno := current_errno ev,
                       isError := True\<rparr>"

definition clear_isError :: "engine \<Rightarrow> engine" where
  "clear_isError e = e\<lparr>printerStatus := (printerStatus e)\<lparr>isError := False\<rparr>\<rparr>"

section \<open>Arithmetic in 32 bits\<close>

lemma int32_id:
  assumes "in_int32 x"
  shows "int32 x = x"
  using assms by (simp add: int32_def in_int32_def)

lemma int32_in_range: "in_int32 (int32 x)"
proof -
  have "0 \<le> (x + 2147483648) mod 4294967296" and "(x + 2147483648) mod 4294967296 < 4294967296"
    by simp_all
  then show ?thesis
    by (simp add: int32_def in_int32_def)
qed

lemma int32_multiple: "int32 z = z - 4294967296 * ((z + 2147483648) div 4294967296)"
proof -
  have "(z + 2147483648) mod 4294967296 =
          (z + 2147483648) - 4294967296 * ((z + 2147483648) div 4294967296)"
    by (simp add: minus_mult_div_eq_mod)
  then show ?thesis
    by (simp add: int32_def)
qed

lemma int32_eq_0_iff:
  assumes "- 4294967296 < z" and "z < 4294967296"
  shows "int32 z = 0 \<longleftrightarrow> z = 0"
proof
  assume "int32 z = 0"
  then have "z = 4294967296 * ((z + 2147483648) div 4294967296)"
    using int32_multiple [of z] by simp
  with assms show "z = 0"
    by (cases "(z + 2147483648) div 4294967296 = 0") auto
next
  assume "z = 0"
  then show "int32 z = 0"
    by (simp add: int32_def)
qed

lemma int32_neg_eq_0: "int32 (- int32 x) = 0 \<longleftrightarrow> int32 x = 0"
proof -
  have "in_int32 (int32 x)"
    by (rule int32_in_range)
  then have "- 4294967296 < - int32 x" and "- int32 x < 4294967296"
    by (simp_all add: in_int32_def)
  then have "int32 (- int32 x) = 0 \<longleftrightarrow> - int32 x = 0"
    by (rule int32_eq_0_iff)
  then show ?thesis
    by simp
qed

section \<open>Layer classification\<close>

text \<open>
  C5, as stated, fails at the largest burn-in count: with \<open>BURN_IN_LAYERS = INT_MAX\<close>
  the sum \<open>1 + numBurnInLayers\<close> does not fit an \<open>int\<close>, and layer 5, which lies in
  2 .. 1 + B, is not classified as a burn-in layer.
\<close>

theorem burn_in_overflow_counterexample:
  "currentLayer (printerStatus (printing_engine 5 10)) = 5 \<and>
   GetInt max_burn_in_env BURN_IN_LAYERS = 2147483647 \<and>
   0 < GetInt max_burn_in_env BURN_IN_LAYERS \<and>
   2 \<le> currentLayer (printerStatus (printing_engine 5 10)) \<and>
   currentLayer (printerStatus (printing_engine 5 10))
     \<le> 1 + GetInt max_burn_in_env BURN_IN_LAYERS \<and>
   \<not> IsBurnInLayer max_burn_in_env (printing_engine 5 10)"
  by (simp add: IsBurnInLayer_def Let_def int32_def printing_engine_def max_burn_in_env_def
      max_burn_in_ints_def)

text \<open>
  C5, amended.  The layer-type tests read only the current layer number and the burn-in
  count.  The layer is the first one exactly when its number is 1.  For every burn-in
  count B below \<open>INT_MAX\<close> (so that 1 + B is an \<open>int\<close>) the layer is a burn-in layer
  exactly when B is positive and the number lies in 2 .. 1 + B, and a model layer
  (neither test holds) otherwise.  The two tests never hold together.
\<close>

theorem layer_classification:
  "(IsFirstLayer e \<longleftrightarrow> currentLayer (printerStatus e) = 1) \<and>
   (GetInt ev BURN_IN_LAYERS < INT_MAX \<longrightarrow>
      (IsBurnInLayer ev e \<longleftrightarrow>
         GetInt ev BURN_IN_LAYERS > 0 \<and> 2 \<le> currentLayer (printerStatus e) \<and>
         currentLayer (printerStatus e) \<le> 1 + GetInt ev BURN_IN_LAYERS)) \<and>
   \<not> (IsFirstLayer e \<and> IsBurnInLayer ev e) \<and>
   (currentLayer (printerStatus e) = currentLayer (printerStatus e') \<and>
    GetInt ev BURN_IN_LAYERS = GetInt ev' BURN_IN_LAYERS \<longrightarrow>
      IsFirstLayer e = IsFirstLayer e' \<and> IsBurnInLayer ev e = IsBurnInLayer ev' e')"
proof -
  have "IsBurnInLayer ev e \<longleftrightarrow>
         GetInt ev BURN_IN_LAYERS > 0 \<and> 2 \<le> currentLayer (printerStatus e) \<and>
         currentLayer (printerStatus e) \<le> 1 + GetInt ev BURN_IN_LAYERS"
    if b: "GetInt ev BURN_IN_LAYERS < INT_MAX"
  proof (cases "GetInt ev BURN_IN_LAYERS > 0")
    case True
    with b have "in_int32 (1 + GetInt ev BURN_IN_LAYERS)"
      by (simp add: in_int32_def INT_MAX_def)
    then have "int32 (1 + GetInt ev BURN_IN_LAYERS) = 1 + GetInt ev BURN_IN_LAYERS"
      by (rule int32_id)
    then show ?thesis
      by (auto simp: IsBurnInLayer_def Let_def)
  next
    case False
    then show ?thesis
      by (simp add: IsBurnInLayer_def Let_def)
  qed
  then show ?thesis
    by (auto simp: IsFirstLayer_def IsBurnInLayer_def Let_def)
qed

theorem layer_classification_witness:
  "GetInt example_env BURN_IN_LAYERS < INT_MAX \<and>
   currentLayer (printerStatus (printing_engine 2 3)) =
     currentLayer (printerStatus (printing_engine 2 5)) \<and>
   GetInt example_env BURN_IN_LAYERS = GetInt short_exposure_env BURN_IN_LAYERS \<and>
   \<not> IsFirstLayer (printing_engine 2 3) \<and>
   IsBurnInLayer example_env (printing_engine 2 3) \<and>
   IsFirstLayer (printing_engine 2 3) = IsFirstLayer (printing_engine 2 5) \<and>
   IsBurnInLayer example_env (printing_engine 2 3) =
     IsBurnInLayer short_exposure_env (printing_engine 2 5)"
proof -
  have b: "GetInt example_env BURN_IN_LAYERS = 1"
    by (simp add: example_env_def example_ints_def)
  have b': "GetInt short_exposure_env BURN_IN_LAYERS = 1"
    by (simp add: short_exposure_env_def example_env_def example_ints_def)
  have l: "currentLayer (printerStatus (printing_engine 2 3)) = 2"
    "currentLayer (printerStatus (printing_engine 2 5)) = 2"
    by (simp_all add: printing_engine_def)
  show ?thesis
    using layer_classification [of "printing_engine 2 3" example_env "printing_engine 2 5"
        short_exposure_env]
    by (auto simp: b b' l INT_MAX_def)
qed

section \<open>Exposure time\<close>

lemma GetExposureTimeSec_configured:
  "GetExposureTimeSec ev e =
     (if configured_exposure ev e > VIDEOFRAME__SEC
      then configured_exposure ev e - VIDEOFRAME__SEC else configured_exposure ev e)"
  by (auto simp: GetExposureTimeSec_def configured_exposure_def IsFirstLayer_def
      IsBurnInLayer_def Let_def)

text \<open>
  C2, as stated, fails: with a first-layer exposure of 1/100 s, which is shorter than a
  video frame, the computed exposure is 1/100 s and not the clamped difference 0.
\<close>

theorem exposure_time_counterexample:
  "0 \<le> configured_exposure short_exposure_env (printing_engine 1 3) \<and>
   GetExposureTimeSec short_exposure_env (printing_engine 1 3) = 1 / 100 \<and>
   max 0 (configured_exposure short_exposure_env (printing_engine 1 3) - VIDEOFRAME__SEC) = 0"
  by (simp add: GetExposureTimeSec_configured configured_exposure_def short_exposure_env_def
      short_exposures_def printing_engine_def example_env_def VIDEOFRAME__SEC_def)

text \<open>
  C2, amended.  For every current layer and every non-negative configured exposure time
  of its layer type, the computed exposure is that time minus one video frame when the
  time is longer than a video frame, and the configured time unchanged otherwise; it is
  never negative, and it is the clamped difference whenever the configured time is
  longer than one video frame.
\<close>

theorem exposure_time_amended:
  assumes "0 \<le> configured_exposure ev e"
  shows "GetExposureTimeSec ev e =
           (if configured_exposure ev e > VIDEOFRAME__SEC
            then configured_exposure ev e - VIDEOFRAME__SEC else configured_exposure ev e) \<and>
         0 \<le> GetExposureTimeSec ev e \<and>
         (VIDEOFRAME__SEC < configured_exposure ev e \<longrightarrow>
            GetExposureTimeSec ev e = max 0 (configured_exposure ev e - VIDEOFRAME__SEC))"
  using assms by (auto simp: GetExposureTimeSec_configured)

theorem exposure_time_amended_witness:
  "0 \<le> configured_exposure example_env (printing_engine 2 3) \<and>
   VIDEOFRAME__SEC < configured_exposure example_env (printing_engine 2 3) \<and>
   GetExposureTimeSec example_env (printing_engine 2 3) = 3 / 2 - 1 / 60"
proof -
  have c: "configured_exposure example_env (printing_engine 2 3) = 3 / 2"
    by (simp add: configured_exposure_def printing_engine_def example_env_def
        example_ints_def example_doubles_def int32_def)
  have h: "0 \<le> configured_exposure example_env (printing_engine 2 3)"
    by (simp add: c)
  show ?thesis
    using exposure_time_amended [OF h] by (simp add: c VIDEOFRAME__SEC_def)
qed

section \<open>Door switch\<close>

text \<open>
  The inversion flag is written in one place, the last line of the constructor, which
  sets it from \<open>HARDWARE_REV\<close>; the operations of the engine leave it alone.
\<close>

lemma PrintEngine_invertDoorSwitch:
  "invertDoorSwitch (PrintEngine ev hw wfd) = (GetInt ev HARDWARE_REV = 0)"
  by (simp add: PrintEngine_def)

lemma invertDoorSwitch_kept:
  "invertDoorSwitch (SendStatus st ch sub e) = invertDoorSwitch e"
  "invertDoorSwitch (HandleError sm ev code False str val e) = invertDoorSwitch e"
  "invertDoorSwitch (SetNumLayers k e) = invertDoorSwitch e"
  "invertDoorSwitch (SendMotorCommand c e) = invertDoorSwitch e"
  "invertDoorSwitch (SendMotorCommandString t k e) = invertDoorSwitch e"
  "invertDoorSwitch (ClearPendingExposureInfo e) = invertDoorSwitch e"
  "invertDoorSwitch (ClearError e) = invertDoorSwitch e"
  "invertDoorSwitch (HandleFatalError_spec e) = invertDoorSwitch e"
  by (simp_all add: SendStatus_def HandleError_def SendStatus1_def SetNumLayers_def
      SendMotorCommand_def SendMotorCommandString_def ClearPendingExposureInfo_def
      ClearError_def HandleFatalError_spec_def Let_def)

text \<open>
  C9.  For the engine that the constructor builds, and for every later state of it
  (which carries the constructor's inversion flag): the event router turns a raw byte
  into \<open>EvDoorClosed\<close> exactly when the byte is '1' for hardware revision 0 and '0'
  otherwise, and into \<open>EvDoorOpened\<close> for every other byte.  The direct probe, with
  hardware present and the GPIO file readable, uses the same inverted mapping: it
  reports open exactly for the byte '0' at revision 0 and '1' otherwise, so on the two
  values of the GPIO line it agrees with the router.
\<close>

theorem door_mapping:
  assumes "invertDoorSwitch e = invertDoorSwitch (PrintEngine ev hw wfd)"
  shows "DoorCallback e b =
           (if b = (if GetInt ev HARDWARE_REV = 0 then CHR ''1'' else CHR ''0'')
            then EvDoorClosed else EvDoorOpened) \<and>
         (haveHardware e \<longrightarrow>
            DoorIsOpen sm ev pin (Some b) e =
              (Some (b = (if GetInt ev HARDWARE_REV = 0 then CHR ''0'' else CHR ''1'')), e)) \<and>
         (haveHardware e \<and> (b = CHR ''0'' \<or> b = CHR ''1'') \<longrightarrow>
            fst (DoorIsOpen sm ev pin (Some b) e) = Some (DoorCallback e b = EvDoorOpened))"
proof -
  have "invertDoorSwitch e = (GetInt ev HARDWARE_REV = 0)"
    using assms by (simp add: PrintEngine_invertDoorSwitch)
  then show ?thesis
    by (auto simp: DoorCallback_def DoorIsOpen_def)
qed

theorem door_mapping_witness:
  "invertDoorSwitch (printing_engine 2 3) = invertDoorSwitch (PrintEngine example_env True 4) \<and>
   GetInt example_env HARDWARE_REV = 0 \<and>
   haveHardware (printing_engine 2 3) \<and>
   DoorCallback (printing_engine 2 3) (CHR ''1'') = EvDoorClosed \<and>
   DoorCallback (printing_engine 2 3) (CHR ''0'') = EvDoorOpened \<and>
   fst (DoorIsOpen HandleFatalError_spec example_env 7 (Some (CHR ''1''))
          (printing_engine 2 3)) = Some False \<and>
   GetInt rev1_env HARDWARE_REV = 1 \<and>
   DoorCallback (PrintEngine rev1_env True 4) (CHR ''0'') = EvDoorClosed \<and>
   DoorCallback (PrintEngine rev1_env True 4) (CHR ''1'') = EvDoorOpened \<and>
   fst (DoorIsOpen HandleFatalError_spec rev1_env 7 (Some (CHR ''1''))
          (PrintEngine rev1_env True 4)) = Some True"
proof -
  have h: "invertDoorSwitch (printing_engine 2 3) =
             invertDoorSwitch (PrintEngine example_env True 4)"
    by (simp add: printing_engine_def)
  have r0: "GetInt example_env HARDWARE_REV = 0"
    by (simp add: example_env_def example_ints_def)
  have r1: "GetInt rev1_env HARDWARE_REV = 1"
    by (simp add: rev1_env_def rev1_ints_def)
  have hw: "haveHardware (printing_engine 2 3)" "haveHardware (PrintEngine rev1_env True 4)"
    by (simp_all add: printing_engine_def PrintEngine_def)
  show ?thesis
    using h
      door_mapping [OF h, of "CHR ''1''" HandleFatalError_spec 7]
      door_mapping [OF h, of "CHR ''0''" HandleFatalError_spec 7]
      door_mapping [OF refl, of rev1_env True 4 "CHR ''0''" HandleFatalError_spec 7]
      door_mapping [OF refl, of rev1_env True 4 "CHR ''1''" HandleFatalError_spec 7]
    by (simp add: r0 r1 hw)
qed

section \<open>Cancelling a print\<close>

lemma c_int_of_double_0: "c_int_of_double 0 = 0"
  by (simp add: c_int_of_double_def)

lemma StopMotor_ok:
  assumes "timerfd_settime_ok ev MotorTimeoutTimerFD (0, 0)"
  shows "StopMotor sm ev e =
           e\<lparr>motorWrites := motorWrites e @ [WriteByte STOP_MOTOR_COMMAND],
             motorTimeoutTimer := (0, 0)\<rparr>"
  using assms
  by (simp add: StopMotor_def ClearMotorTimeoutTimer_def StartMotorTimeoutTimer_def
      SendMotorCommand_def)

lemma ClearExposureTimer_ok:
  assumes "timerfd_settime_ok ev ExposureTimerFD (0, 0)"
  shows "ClearExposureTimer sm ev e = e\<lparr>exposureTimer := (0, 0)\<rparr>"
  using assms
  by (simp add: ClearExposureTimer_def StartExposureTimer_def c_int_of_double_0)

lemma CancelPrint_ok:
  assumes "timerfd_settime_ok ev MotorTimeoutTimerFD (0, 0)"
    and "timerfd_settime_ok ev ExposureTimerFD (0, 0)"
  shows "CancelPrint sm ev e =
           e\<lparr>motorWrites := motorWrites e @ [WriteByte STOP_MOTOR_COMMAND],
             motorTimeoutTimer := (0, 0),
             printerStatus := (printerStatus e)\<lparr>numLayers := 0, currentLayer := 0\<rparr>,
             exposureTimer := (0, 0),
             pendingExposureInfo := False\<rparr>"
  by (simp add: CancelPrint_def StopMotor_ok [OF assms(1)] ClearExposureTimer_ok [OF assms(2)]
      SetNumLayers_def ClearPendingExposureInfo_def)

text \<open>
  C3.  Whatever the printer status was, once \<open>CancelPrint\<close> has returned (the two
  timer system calls succeeding) the STOP command is the last write to the motor board,
  the motor-timeout timer and the exposure timer are disarmed, and both the number of
  layers and the current layer are 0.
\<close>

theorem CancelPrint_effects:
  assumes "timerfd_settime_ok ev MotorTimeoutTimerFD (0, 0)"
    and "timerfd_settime_ok ev ExposureTimerFD (0, 0)"
  shows "motorWrites (CancelPrint sm ev e) = motorWrites e @ [WriteByte STOP_MOTOR_COMMAND] \<and>
         motorTimeoutTimer (CancelPrint sm ev e) = (0, 0) \<and>
         exposureTimer (CancelPrint sm ev e) = (0, 0) \<and>
         numLayers (printerStatus (CancelPrint sm ev e)) = 0 \<and>
         currentLayer (printerStatus (CancelPrint sm ev e)) = 0"
  by (simp add: CancelPrint_ok [OF assms])

theorem CancelPrint_effects_witness:
  "timerfd_settime_ok example_env MotorTimeoutTimerFD (0, 0) \<and>
   timerfd_settime_ok example_env ExposureTimerFD (0, 0) \<and>
   motorTimeoutTimer (printing_engine 2 3) = (30, 0) \<and>
   numLayers (printerStatus (printing_engine 2 3)) = 3 \<and>
   motorWrites (CancelPrint (HandleFatalError_spec) example_env (printing_engine 2 3))
     = [WriteByte STOP_MOTOR_COMMAND] \<and>
   motorTimeoutTimer
     (CancelPrint (HandleFatalError_spec) example_env (printing_engine 2 3)) = (0, 0) \<and>
   exposureTimer
     (CancelPrint (HandleFatalError_spec) example_env (printing_engine 2 3)) = (0, 0) \<and>
   numLayers (printerStatus
     (CancelPrint (HandleFatalError_spec) example_env (printing_engine 2 3))) = 0 \<and>
   currentLayer (printerStatus
     (CancelPrint (HandleFatalError_spec) example_env (printing_engine 2 3))) = 0"
proof -
  have m: "timerfd_settime_ok example_env MotorTimeoutTimerFD (0, 0)"
    by (simp add: example_env_def always_ok_def)
  have x: "timerfd_settime_ok example_env ExposureTimerFD (0, 0)"
    by (simp add: example_env_def always_ok_def)
  show ?thesis
    using m x CancelPrint_effects [OF m x, of "HandleFatalError_spec"
        "printing_engine 2 3"]
    by (simp add: printing_engine_def PrintEngine_def)
qed

section \<open>Error reporting\<close>

lemma SendStatus1_pipe:
  "statusPipe (SendStatus1 st e) =
     statusPipe e @
       (if 0 \<le> statusWriteFd e then [(printerStatus e)\<lparr>state := st, change := NoChange\<rparr>]
        else [])"
  by (simp add: SendStatus1_def SendStatus_def Let_def)

lemma SendStatus1_status:
  "printerStatus (SendStatus1 st e) = (printerStatus e)\<lparr>state := st, change := NoChange\<rparr>"
  by (simp add: SendStatus1_def SendStatus_def Let_def)

lemma SendStatus1_logged: "logged (SendStatus1 st e) = logged e"
  by (simp add: SendStatus1_def SendStatus_def Let_def)

lemma HandleError_nonfatal_pipe:
  "statusPipe (HandleError sm ev code False str val e) =
     statusPipe e @ (if 0 \<le> statusWriteFd e then [error_record ev code e] else [])"
  by (simp add: HandleError_def Let_def SendStatus1_def SendStatus_def error_record_def)

lemma HandleError_cleared:
  "isError (printerStatus (HandleError sm ev code fatal str val e)) = False"
  by (simp add: HandleError_def Let_def)

text \<open>
  A fatal error: the state machine's handler runs on an engine that has logged and
  published the error and whose new-error flag is still set; the flag is cleared on the
  handler's result.
\<close>

lemma HandleError_fatal:
  "\<exists>e3. HandleError sm ev code True str val e = clear_isError (sm e3) \<and>
        statusPipe e3 =
          statusPipe e @ (if 0 \<le> statusWriteFd e then [error_record ev code e] else []) \<and>
        logged e3 =
          logged e @ [(LOG_ERR, current_errno ev, code,
                       case str of Some s \<Rightarrow> StrArg s
                       | None \<Rightarrow> if val \<noteq> INT_MAX then IntArg val else NoArg)] \<and>
        printerStatus e3 = error_record ev code e"
proof -
  let ?arg = "case str of Some s \<Rightarrow> StrArg s
              | None \<Rightarrow> if val \<noteq> INT_MAX then IntArg val else NoArg"
  let ?e2 = "e\<lparr>logged := logged e @ [(LOG_ERR, current_errno ev, code, ?arg)],
               printerStatus :=
                 (printerStatus e)\<lparr>errorCode := code, errno := current_errno ev,
                                   isError := True\<rparr>\<rparr>"
  let ?e3 = "SendStatus1 (state (printerStatus ?e2)) ?e2"
  have "HandleError sm ev code True str val e = clear_isError (sm ?e3)"
    by (simp add: HandleError_def Let_def clear_isError_def)
  moreover have "statusPipe ?e3 =
      statusPipe e @ (if 0 \<le> statusWriteFd e then [error_record ev code e] else [])"
    by (simp add: SendStatus1_pipe error_record_def)
  moreover have "logged ?e3 = logged e @ [(LOG_ERR, current_errno ev, code, ?arg)]"
    by (simp add: SendStatus1_logged)
  moreover have "printerStatus ?e3 = error_record ev code e"
    by (simp add: SendStatus1_status error_record_def)
  ultimately show ?thesis
    by blast
qed

lemma HandleError_spec_pipe:
  "statusPipe (HandleError HandleFatalError_spec ev code fatal str val e) =
     statusPipe e @ (if 0 \<le> statusWriteFd e then [error_record ev code e] else [])"
  by (simp add: HandleError_def Let_def SendStatus1_def SendStatus_def error_record_def
      HandleFatalError_spec_def)

text \<open>The same holds of every fault handler that publishes nothing itself.\<close>

lemma HandleError_quiet_handler:
  assumes "\<And>x. statusPipe (sm x) = statusPipe x"
  shows "statusPipe (HandleError sm ev code fatal str val e) =
           statusPipe e @ (if 0 \<le> statusWriteFd e then [error_record ev code e] else [])"
  using assms
  by (simp add: HandleError_def Let_def SendStatus1_def SendStatus_def error_record_def)

lemma HandleError_spec_injected:
  "injected (HandleError HandleFatalError_spec ev code fatal str val e) =
     injected e @ (if fatal then [EvError] else [])"
  by (simp add: HandleError_def Let_def SendStatus1_def SendStatus_def
      HandleFatalError_spec_def)

text \<open>A status record published while the flag is clear does not carry it.\<close>

lemma SendStatus_unflagged:
  assumes "\<not> isError (printerStatus e)"
  shows "filter isError (statusPipe (SendStatus st ch sub e)) = filter isError (statusPipe e)"
    and "\<not> isError (printerStatus (SendStatus st ch sub e))"
  using assms by (simp_all add: SendStatus_def Let_def)

text \<open>
  Processing the injected fault event publishes the entry into the Error state, and with
  the flag clear that record does not carry it.
\<close>

lemma process_EvError_unflagged:
  assumes "timerfd_settime_ok ev MotorTimeoutTimerFD (0, 0)"
    and "timerfd_settime_ok ev ExposureTimerFD (0, 0)"
    and "\<not> isError (printerStatus e)"
  shows "filter isError (statusPipe (process_EvError sm ev e)) = filter isError (statusPipe e)"
proof (cases "injected e")
  case Nil
  then show ?thesis
    by (simp add: process_EvError_def)
next
  case (Cons x rest)
  show ?thesis
  proof (cases x)
    case EvError
    let ?e1 = "CancelPrint sm ev (StopMotor sm ev (e\<lparr>injected := rest\<rparr>))"
    have p: "statusPipe ?e1 = statusPipe e" and q: "\<not> isError (printerStatus ?e1)"
      using assms(3) by (simp_all add: CancelPrint_ok [OF assms(1,2)] StopMotor_ok [OF assms(1)])
    have "process_EvError sm ev e = SendStatus ErrorState Entering (UISubState (printerStatus ?e1)) ?e1"
      using Cons EvError by (simp add: process_EvError_def Let_def)
    then show ?thesis
      using SendStatus_unflagged(1) [OF q] p by simp
  qed (use Cons in \<open>simp_all add: process_EvError_def\<close>)
qed

text \<open>
  C1.  For every raised error, fatal or not, \<open>HandleError\<close> publishes exactly one status
  record (none when the status pipe is not open); that record carries the new-error
  flag and the error code.  The flag is clear when \<open>HandleError\<close> returns; a fatal error
  has only injected the fault event by then.  So no status record published afterwards
  carries the flag: neither the next one, whatever its arguments, nor the one that the
  processing of the fault event publishes (the timer system calls succeeding).
\<close>

theorem HandleError_latch:
  "statusPipe (HandleError HandleFatalError_spec ev code fatal str val e) =
     statusPipe e @ (if 0 \<le> statusWriteFd e then [error_record ev code e] else []) \<and>
   isError (error_record ev code e) \<and> errorCode (error_record ev code e) = code \<and>
   \<not> isError (printerStatus (HandleError HandleFatalError_spec ev code fatal str val e)) \<and>
   injected (HandleError HandleFatalError_spec ev code fatal str val e) =
     injected e @ (if fatal then [EvError] else []) \<and>
   filter isError
     (statusPipe (SendStatus st ch sub (HandleError HandleFatalError_spec ev code fatal str val e)))
     = filter isError (statusPipe (HandleError HandleFatalError_spec ev code fatal str val e)) \<and>
   (timerfd_settime_ok ev MotorTimeoutTimerFD (0, 0) \<and>
    timerfd_settime_ok ev ExposureTimerFD (0, 0) \<longrightarrow>
      filter isError
        (statusPipe (process_EvError sm ev
           (HandleError HandleFatalError_spec ev code fatal str val e)))
        = filter isError (statusPipe (HandleError HandleFatalError_spec ev code fatal str val e)))"
proof -
  let ?e' = "HandleError HandleFatalError_spec ev code fatal str val e"
  have c: "\<not> isError (printerStatus ?e')"
    by (simp add: HandleError_cleared)
  have "filter isError (statusPipe (SendStatus st ch sub ?e')) = filter isError (statusPipe ?e')"
    by (rule SendStatus_unflagged(1) [OF c])
  moreover have "filter isError (statusPipe (process_EvError sm ev ?e')) =
                   filter isError (statusPipe ?e')"
    if "timerfd_settime_ok ev MotorTimeoutTimerFD (0, 0)"
      and "timerfd_settime_ok ev ExposureTimerFD (0, 0)"
    using that c by (rule process_EvError_unflagged)
  moreover have "isError (error_record ev code e) \<and> errorCode (error_record ev code e) = code"
    by (simp add: error_record_def)
  ultimately show ?thesis
    using c by (simp add: HandleError_spec_pipe HandleError_spec_injected)
qed

theorem HandleError_latch_witness:
  "timerfd_settime_ok example_env MotorTimeoutTimerFD (0, 0) \<and>
   timerfd_settime_ok example_env ExposureTimerFD (0, 0) \<and>
   statusPipe (printing_engine 2 3) = [] \<and>
   map isError
     (statusPipe (HandleError HandleFatalError_spec example_env MotorTimeoutError True None
        INT_MAX (printing_engine 2 3))) = [True] \<and>
   injected (HandleError HandleFatalError_spec example_env MotorTimeoutError True None
        INT_MAX (printing_engine 2 3)) = [EvError] \<and>
   map state
     (statusPipe (process_EvError HandleFatalError_spec example_env
        (HandleError HandleFatalError_spec example_env MotorTimeoutError True None
           INT_MAX (printing_engine 2 3)))) = [ExposingState, ErrorState] \<and>
   filter isError
     (statusPipe (process_EvError HandleFatalError_spec example_env
        (HandleError HandleFatalError_spec example_env MotorTimeoutError True None
           INT_MAX (printing_engine 2 3))))
     = [error_record example_env MotorTimeoutError (printing_engine 2 3)]"
proof -
  have m: "timerfd_settime_ok example_env MotorTimeoutTimerFD (0, 0)"
    by (simp add: example_env_def always_ok_def)
  have x: "timerfd_settime_ok example_env ExposureTimerFD (0, 0)"
    by (simp add: example_env_def always_ok_def)
  have p: "statusPipe (printing_engine 2 3) = []" "0 \<le> statusWriteFd (printing_engine 2 3)"
    "injected (printing_engine 2 3) = []"
    by (simp_all add: printing_engine_def PrintEngine_def)
  let ?e' = "HandleError HandleFatalError_spec example_env MotorTimeoutError True None
               INT_MAX (printing_engine 2 3)"
  have s: "map state (statusPipe (process_EvError HandleFatalError_spec example_env ?e')) =
             [ExposingState, ErrorState]"
    by (simp add: process_EvError_def HandleError_def HandleFatalError_spec_def Let_def
        SendStatus1_def SendStatus_def CancelPrint_ok [OF m x] StopMotor_ok [OF m]
        printing_engine_def PrintEngine_def)
  show ?thesis
    using m x s
      HandleError_latch [of example_env MotorTimeoutError True None INT_MAX
        "printing_engine 2 3" ErrorState Entering NoUISubState HandleFatalError_spec]
    by (simp add: p error_record_def)
qed

section \<open>Advancing to the next layer\<close>

text \<open>
  C10.  With the timer system calls succeeding: if the image of the next layer cannot be
  loaded, \<open>NextLayer\<close> reports \<open>NoImageForLayer\<close> as a fatal error (logged at \<open>LOG_ERR\<close>,
  published, and handed to the state machine's fault handling) and then cancels the
  print, so it returns 0 and leaves the current layer and the number of layers at 0; if
  the image loads, it returns the incremented layer number and only the current layer
  of the printer status has changed.
\<close>

theorem NextLayer_effects:
  assumes "timerfd_settime_ok ev MotorTimeoutTimerFD (0, 0)"
    and "timerfd_settime_ok ev ExposureTimerFD (0, 0)"
  shows "(\<not> LoadImageForLayer ev (currentLayer (printerStatus e) + 1) \<longrightarrow>
            fst (NextLayer sm ev e) = 0 \<and>
            currentLayer (printerStatus (snd (NextLayer sm ev e))) = 0 \<and>
            numLayers (printerStatus (snd (NextLayer sm ev e))) = 0 \<and>
            (\<exists>e3. snd (NextLayer sm ev e) = CancelPrint sm ev (clear_isError (sm e3)) \<and>
                  last (logged e3) =
                    (LOG_ERR, current_errno ev, NoImageForLayer,
                     if currentLayer (printerStatus e) + 1 \<noteq> INT_MAX
                     then IntArg (currentLayer (printerStatus e) + 1) else NoArg) \<and>
                  errorCode (printerStatus e3) = NoImageForLayer \<and>
                  isError (printerStatus e3))) \<and>
         (LoadImageForLayer ev (currentLayer (printerStatus e) + 1) \<longrightarrow>
            NextLayer sm ev e =
              (currentLayer (printerStatus e) + 1,
               e\<lparr>printerStatus :=
                   (printerStatus e)\<lparr>currentLayer := currentLayer (printerStatus e) + 1\<rparr>\<rparr>))"
proof -
  let ?l = "currentLayer (printerStatus e) + 1"
  let ?e1 = "e\<lparr>printerStatus := (printerStatus e)\<lparr>currentLayer := ?l\<rparr>\<rparr>"
  obtain e3 where h: "HandleError sm ev NoImageForLayer True None ?l ?e1 = clear_isError (sm e3)"
    and l: "logged e3 =
          logged ?e1 @ [(LOG_ERR, current_errno ev, NoImageForLayer,
                       case None of Some s \<Rightarrow> StrArg s
                       | None \<Rightarrow> if ?l \<noteq> INT_MAX then IntArg ?l else NoArg)]"
    and p: "printerStatus e3 = error_record ev NoImageForLayer ?e1"
    using HandleError_fatal [of sm ev NoImageForLayer None ?l ?e1] by blast
  have "\<not> LoadImageForLayer ev ?l \<longrightarrow>
          snd (NextLayer sm ev e) = CancelPrint sm ev (clear_isError (sm e3))"
    by (simp add: NextLayer_def Let_def h)
  moreover have "\<not> LoadImageForLayer ev ?l \<longrightarrow>
          fst (NextLayer sm ev e) = 0"
    by (simp add: NextLayer_def Let_def h CancelPrint_ok [OF assms])
  moreover have "last (logged e3) =
                    (LOG_ERR, current_errno ev, NoImageForLayer,
                     if ?l \<noteq> INT_MAX then IntArg ?l else NoArg)"
    by (simp add: l)
  moreover have "errorCode (printerStatus e3) = NoImageForLayer \<and> isError (printerStatus e3)"
    by (simp add: p error_record_def)
  moreover have "LoadImageForLayer ev ?l \<longrightarrow> NextLayer sm ev e = (?l, ?e1)"
    by (simp add: NextLayer_def Let_def)
  ultimately show ?thesis
    by (auto simp: CancelPrint_ok [OF assms])
qed

theorem NextLayer_effects_witness:
  "timerfd_settime_ok example_env MotorTimeoutTimerFD (0, 0) \<and>
   timerfd_settime_ok example_env ExposureTimerFD (0, 0) \<and>
   LoadImageForLayer example_env (currentLayer (printerStatus (printing_engine 2 5)) + 1) \<and>
   \<not> LoadImageForLayer example_env (currentLayer (printerStatus (printing_engine 3 5)) + 1) \<and>
   fst (NextLayer (HandleFatalError_spec) example_env (printing_engine 2 5)) = 3 \<and>
   fst (NextLayer (HandleFatalError_spec) example_env (printing_engine 3 5)) = 0 \<and>
   numLayers (printerStatus
     (snd (NextLayer (HandleFatalError_spec) example_env (printing_engine 3 5)))) = 0"
proof -
  have m: "timerfd_settime_ok example_env MotorTimeoutTimerFD (0, 0)"
    by (simp add: example_env_def always_ok_def)
  have x: "timerfd_settime_ok example_env ExposureTimerFD (0, 0)"
    by (simp add: example_env_def always_ok_def)
  have a: "LoadImageForLayer example_env (currentLayer (printerStatus (printing_engine 2 5)) + 1)"
    by (simp add: example_env_def three_images_def printing_engine_def)
  have b: "\<not> LoadImageForLayer example_env
               (currentLayer (printerStatus (printing_engine 3 5)) + 1)"
    by (simp add: example_env_def three_images_def printing_engine_def)
  have c: "currentLayer (printerStatus (printing_engine 2 5)) = 2"
    by (simp add: printing_engine_def)
  show ?thesis
    using m x a b c
      NextLayer_effects [OF m x, of "printing_engine 2 5" "HandleFatalError_spec"]
      NextLayer_effects [OF m x, of "printing_engine 3 5" "HandleFatalError_spec"]
    by simp
qed

section \<open>Sending command batches\<close>

lemma SendCommands_all_ok:
  assumes "\<And>b c. tx b c"
  shows "SendCommands tx cs bus = (True, bus @ cs)"
  using assms by (induction cs arbitrary: bus) (simp_all add: Send_def)

text \<open>
  \<open>SendCommands\<close> itself stops at the first command that cannot be sent: it returns
  false and nothing after that command reaches the bus.
\<close>

lemma SendCommands_stops_at_failure:
  assumes "\<forall>i<length pre. tx (bus @ take i pre) (pre ! i)"
    and "\<not> tx (bus @ pre) c"
  shows "SendCommands tx (pre @ c # post) bus = (False, bus @ pre @ [c])"
  using assms
proof (induction pre arbitrary: bus)
  case Nil
  then show ?case by (simp add: Send_def)
next
  case (Cons p ps)
  from Cons.prems(1) have p: "tx bus p"
    by fastforce
  have "\<forall>i<length ps. tx ((bus @ [p]) @ take i ps) (ps ! i)"
  proof (intro allI impI)
    fix i assume "i < length ps"
    then have "tx (bus @ take (Suc i) (p # ps)) ((p # ps) ! Suc i)"
      using Cons.prems(1) by (metis Suc_less_eq length_Cons)
    then show "tx ((bus @ [p]) @ take i ps) (ps ! i)"
      by simp
  qed
  moreover have "\<not> tx ((bus @ [p]) @ ps) c"
    using Cons.prems(2) by simp
  ultimately have "SendCommands tx (ps @ c # post) (bus @ [p]) = (False, (bus @ [p]) @ ps @ [c])"
    by (rule Cons.IH)
  with p show ?case
    by (simp add: Send_def)
qed

text \<open>\<open>Approach\<close> gives up when the un-jam batch fails: no approach command is sent.\<close>

lemma Approach_unjam_failure:
  assumes "fst (UnJam tx ev lt n ls False bus) = False"
  shows "Approach tx ev lt n ls True bus = (False, snd (UnJam tx ev lt n ls False bus))"
  using assms by (cases "UnJam tx ev lt n ls False bus") (simp add: Approach_def)

text \<open>
  C4 does not hold of \<open>GoToStartPosition\<close>.  On a bus whose very first transmission
  fails, \<open>GoHome(false)\<close> stops after one command and returns false, but
  \<open>GoToStartPosition\<close> drops that result: it goes on to send its whole second batch and
  returns true.
\<close>

theorem GoToStartPosition_ignores_failure:
  "GoHome first_fails example_env False [] =
     (False, [MotorCommand MC_ROT_SETTINGS_REG MC_JERK (Some 5)]) \<and>
   GoToStartPosition first_fails example_env [] =
     (True, [MotorCommand MC_ROT_SETTINGS_REG MC_JERK (Some 5),
             MotorCommand MC_ROT_SETTINGS_REG MC_JERK (Some 5),
             MotorCommand MC_ROT_SETTINGS_REG MC_SPEED (Some 500),
             MotorCommand MC_ROT_ACTION_REG MC_MOVE (Some 6000),
             MotorCommand MC_Z_SETTINGS_REG MC_JERK (Some 5),
             MotorCommand MC_Z_SETTINGS_REG MC_SPEED (Some 5000),
             MotorCommand MC_Z_ACTION_REG MC_MOVE (Some (- 165000)),
             MotorCommand MC_GENERAL_REG MC_INTERRUPT None])"
  by (simp add: GoToStartPosition_def GoHome_def GoHome_commands_def
      GoToStartPosition_commands_def Let_def Send_def first_fails_def example_env_def
      example_ints_def c_div_def int32_def)

section \<open>Move amounts of the separate and approach batches\<close>

text \<open>
  C7, as stated, fails where the amount does not fit the 32-bit parameter of a move:
  with a layer thickness of 2000000000 and a Z lift of -2000000000 the difference is
  4000000000, and the Approach batch moves Z by -294967296.
\<close>

theorem approach_overflow_counterexample:
  "far_apart_ls 4 LAYER_THICKNESS - far_apart_ls 4 (layer_key Model Z_LIFT) = 4000000000 \<and>
   filter is_move (Approach_commands example_env Model 4 far_apart_ls) =
     [MotorCommand MC_ROT_ACTION_REG MC_MOVE (Some 6000),
      MotorCommand MC_Z_ACTION_REG MC_MOVE (Some (- 294967296))]"
  by (simp add: Approach_commands_def Let_def far_apart_ls_def example_env_def
      example_ints_def c_div_def int32_def)

text \<open>
  C7, amended.  For every layer type and all layer settings for which the rotation
  divided by \<open>R_SCALE_FACTOR\<close>, its negation, and the layer thickness minus the Z lift are
  values of a 32-bit \<open>int\<close>: the only move actions of the Separate batch are the rotation
  by minus the layer type's rotation divided by \<open>R_SCALE_FACTOR\<close>, followed by the Z move
  by the layer type's Z lift; the only move actions of the Approach batch are the
  rotation by plus that quotient, followed by the Z move by the layer thickness minus
  the Z lift.  (A move whose amount is zero is left out.)  On a bus that accepts every
  transmission these batches are what the two operations send.
\<close>

theorem separate_approach_moves:
  assumes "in_int32 (c_div (ls n (layer_key lt ROTATION)) (R_SCALE_FACTOR ev))"
    and "in_int32 (- c_div (ls n (layer_key lt ROTATION)) (R_SCALE_FACTOR ev))"
    and "in_int32 (ls n LAYER_THICKNESS - ls n (layer_key lt Z_LIFT))"
  shows
  "filter is_move (Separate_commands ev lt n ls) =
     (if c_div (ls n (layer_key lt ROTATION)) (R_SCALE_FACTOR ev) \<noteq> 0
      then [MotorCommand MC_ROT_ACTION_REG MC_MOVE
              (Some (- c_div (ls n (layer_key lt ROTATION)) (R_SCALE_FACTOR ev)))]
      else []) @
     (if ls n (layer_key lt Z_LIFT) \<noteq> 0
      then [MotorCommand MC_Z_ACTION_REG MC_MOVE (Some (ls n (layer_key lt Z_LIFT)))]
      else []) \<and>
   filter is_move (Approach_commands ev lt n ls) =
     (if c_div (ls n (layer_key lt ROTATION)) (R_SCALE_FACTOR ev) \<noteq> 0
      then [MotorCommand MC_ROT_ACTION_REG MC_MOVE
              (Some (c_div (ls n (layer_key lt ROTATION)) (R_SCALE_FACTOR ev)))]
      else []) @
     (if ls n LAYER_THICKNESS \<noteq> ls n (layer_key lt Z_LIFT)
      then [MotorCommand MC_Z_ACTION_REG MC_MOVE
              (Some (ls n LAYER_THICKNESS - ls n (layer_key lt Z_LIFT)))]
      else []) \<and>
   ((\<forall>b c. tx b c) \<longrightarrow>
      Separate tx ev lt n ls bus = (True, bus @ Separate_commands ev lt n ls) \<and>
      Approach tx ev lt n ls False bus = (True, bus @ Approach_commands ev lt n ls))"
proof -
  note w = int32_id [OF assms(1)] int32_id [OF assms(2)] int32_id [OF assms(3)]
  have s: "filter is_move (Separate_commands ev lt n ls) =
     (if c_div (ls n (layer_key lt ROTATION)) (R_SCALE_FACTOR ev) \<noteq> 0
      then [MotorCommand MC_ROT_ACTION_REG MC_MOVE
              (Some (- c_div (ls n (layer_key lt ROTATION)) (R_SCALE_FACTOR ev)))]
      else []) @
     (if ls n (layer_key lt Z_LIFT) \<noteq> 0
      then [MotorCommand MC_Z_ACTION_REG MC_MOVE (Some (ls n (layer_key lt Z_LIFT)))]
      else [])"
    using w by (cases lt) (simp_all add: Separate_commands_def Let_def)
  have a: "filter is_move (Approach_commands ev lt n ls) =
     (if c_div (ls n (layer_key lt ROTATION)) (R_SCALE_FACTOR ev) \<noteq> 0
      then [MotorCommand MC_ROT_ACTION_REG MC_MOVE
              (Some (c_div (ls n (layer_key lt ROTATION)) (R_SCALE_FACTOR ev)))]
      else []) @
     (if ls n LAYER_THICKNESS \<noteq> ls n (layer_key lt Z_LIFT)
      then [MotorCommand MC_Z_ACTION_REG MC_MOVE
              (Some (ls n LAYER_THICKNESS - ls n (layer_key lt Z_LIFT)))]
      else [])"
    using w by (cases lt) (simp_all add: Approach_commands_def Let_def)
  have t: "(\<forall>b c. tx b c) \<longrightarrow>
      Separate tx ev lt n ls bus = (True, bus @ Separate_commands ev lt n ls) \<and>
      Approach tx ev lt n ls False bus = (True, bus @ Approach_commands ev lt n ls)"
    by (simp add: Separate_def Approach_def SendCommands_all_ok)
  from s a t show ?thesis
    by blast
qed

theorem separate_approach_moves_witness:
  "in_int32 (c_div (example_ls 4 (layer_key Model ROTATION)) (R_SCALE_FACTOR example_env)) \<and>
   in_int32 (- c_div (example_ls 4 (layer_key Model ROTATION)) (R_SCALE_FACTOR example_env)) \<and>
   in_int32 (example_ls 4 LAYER_THICKNESS - example_ls 4 (layer_key Model Z_LIFT)) \<and>
   (\<forall>b c. accept_all b c) \<and>
   filter is_move (snd (Separate accept_all example_env Model 4 example_ls [])) =
     [MotorCommand MC_ROT_ACTION_REG MC_MOVE (Some (- 6000)),
      MotorCommand MC_Z_ACTION_REG MC_MOVE (Some 1000)] \<and>
   filter is_move (snd (Approach accept_all example_env Model 4 example_ls False [])) =
     [MotorCommand MC_ROT_ACTION_REG MC_MOVE (Some 6000),
      MotorCommand MC_Z_ACTION_REG MC_MOVE (Some (- 975))]"
proof -
  have h: "\<forall>b c. accept_all b c"
    by (simp add: accept_all_def)
  have r: "c_div (example_ls 4 ML_ROTATION) (R_SCALE_FACTOR example_env) = 6000"
    by (simp add: example_ls_def example_ints_def example_env_def c_div_def)
  have z: "example_ls 4 ML_Z_LIFT = 1000"
    by (simp add: example_ls_def example_ints_def)
  have t: "example_ls 4 LAYER_THICKNESS = 25"
    by (simp add: example_ls_def example_ints_def)
  have i1: "in_int32 (c_div (example_ls 4 (layer_key Model ROTATION))
                        (R_SCALE_FACTOR example_env))"
    by (simp add: r in_int32_def)
  have i2: "in_int32 (- c_div (example_ls 4 (layer_key Model ROTATION))
                          (R_SCALE_FACTOR example_env))"
    by (simp add: r in_int32_def)
  have i3: "in_int32 (example_ls 4 LAYER_THICKNESS - example_ls 4 (layer_key Model Z_LIFT))"
    by (simp add: z t in_int32_def)
  show ?thesis
    using h i1 i2 i3
      separate_approach_moves [of example_ls 4 Model example_env accept_all "[]", OF i1 i2 i3]
    by (simp add: r z t)
qed

section \<open>Zero-valued moves\<close>

text \<open>
  Every batch but one leaves a zero move out: \<open>GoHome\<close>, \<open>Separate\<close>, \<open>Approach\<close>,
  \<open>PauseAndInspect\<close>, \<open>ResumeFromInspect\<close> and \<open>UnJam\<close> test each amount before adding
  the move.  (For the two moves whose amount is computed from settings after the test,
  the settings are values of an \<open>int\<close>.)
\<close>

lemma guarded_batches_no_zero_move:
  "filter is_zero_move (GoHome_commands ev w) = []"
  "filter is_zero_move (Separate_commands ev lt n ls) = []"
  "filter is_zero_move (PauseAndInspect_commands ev r) = []"
  "filter is_zero_move (UnJam_commands ev lt n ls w) = []"
  by (cases lt; simp add: GoHome_commands_def Separate_commands_def
      PauseAndInspect_commands_def UnJam_commands_def Let_def int32_neg_eq_0)+

lemma Approach_no_zero_move:
  assumes "in_int32 (ls n LAYER_THICKNESS)" and "in_int32 (ls n (layer_key lt Z_LIFT))"
  shows "filter is_zero_move (Approach_commands ev lt n ls) = []"
proof -
  have "int32 (ls n LAYER_THICKNESS - ls n (layer_key lt Z_LIFT)) = 0 \<longleftrightarrow>
          ls n LAYER_THICKNESS - ls n (layer_key lt Z_LIFT) = 0"
    using assms by (intro int32_eq_0_iff) (simp_all add: in_int32_def)
  then show ?thesis
    by (cases lt) (simp_all add: Approach_commands_def Let_def)
qed

lemma ResumeFromInspect_no_zero_move:
  assumes "in_int32 (GetInt ev INSPECTION_HEIGHT)"
  shows "filter is_zero_move (ResumeFromInspect_commands ev r) = []"
proof -
  have "int32 (- GetInt ev INSPECTION_HEIGHT) = 0 \<longleftrightarrow> - GetInt ev INSPECTION_HEIGHT = 0"
    using assms by (intro int32_eq_0_iff) (simp_all add: in_int32_def)
  then show ?thesis
    by (simp add: ResumeFromInspect_commands_def Let_def)
qed

lemma GoToStartPosition_zero_move:
  "filter is_zero_move (GoToStartPosition_commands ev) =
     (if GetInt ev Z_START_PRINT_POSITION = 0
      then [MotorCommand MC_Z_ACTION_REG MC_MOVE (Some 0)] else [])"
  by (simp add: GoToStartPosition_commands_def Let_def)

text \<open>
  C8 does not hold of \<open>GoToStartPosition\<close>.  Its rotation is tested like every other
  move, but its Z move to the start position is added without a test: with a start
  position of 0 the batch contains, and the bus receives, a Z move with parameter 0.
\<close>

theorem GoToStartPosition_sends_zero_move:
  "GetInt zero_start_env Z_START_PRINT_POSITION = 0 \<and>
   filter is_zero_move (GoToStartPosition_commands zero_start_env) =
     [MotorCommand MC_Z_ACTION_REG MC_MOVE (Some 0)] \<and>
   filter is_zero_move (snd (GoToStartPosition accept_all zero_start_env [])) =
     [MotorCommand MC_Z_ACTION_REG MC_MOVE (Some 0)]"
proof -
  have z: "GetInt zero_start_env Z_START_PRINT_POSITION = 0"
    by (simp add: zero_start_env_def zero_start_ints_def)
  have a: "\<And>b c. accept_all b c"
    by (simp add: accept_all_def)
  have "GoToStartPosition accept_all zero_start_env [] =
          (True, GoHome_commands zero_start_env False @ GoToStartPosition_commands zero_start_env)"
    by (simp add: GoToStartPosition_def GoHome_def SendCommands_all_ok [of accept_all, OF a])
  then show ?thesis
    by (simp add: z GoToStartPosition_zero_move guarded_batches_no_zero_move)
qed

section \<open>Sending the pending settings\<close>

text \<open>
  C6.  When the pending settings are not empty and their first entry is the separation
  speed: with a value outside 0 .. 9, \<open>SendSettings\<close> reports \<open>SeparationRpmOutOfRange\<close>
  as a non-fatal error (logged as a warning and published, no fault event injected),
  writes nothing to the motor board, removes the entry, and returns true exactly when
  no settings remain; with a value in range it makes exactly one write to the motor
  board, sets the flag that an acknowledgement is awaited, removes the entry and
  returns false.
\<close>

theorem SendSettings_separation_rpm:
  assumes "motorSettings e = (SEPARATION_RPM, cmd) # rest"
  shows "(GetInt ev SEPARATION_RPM < 0 \<or> 9 < GetInt ev SEPARATION_RPM \<longrightarrow>
            fst (SendSettings sm ev e) = (rest = []) \<and>
            motorWrites (snd (SendSettings sm ev e)) = motorWrites e \<and>
            motorSettings (snd (SendSettings sm ev e)) = rest \<and>
            awaitingMotorSettingAck (snd (SendSettings sm ev e)) = awaitingMotorSettingAck e \<and>
            injected (snd (SendSettings sm ev e)) = injected e \<and>
            logged (snd (SendSettings sm ev e)) =
              logged e @ [(LOG_WARNING, current_errno ev, SeparationRpmOutOfRange,
                           if GetInt ev SEPARATION_RPM \<noteq> INT_MAX
                           then IntArg (GetInt ev SEPARATION_RPM) else NoArg)] \<and>
            statusPipe (snd (SendSettings sm ev e)) =
              statusPipe e @
                (if 0 \<le> statusWriteFd e then [error_record ev SeparationRpmOutOfRange e]
                 else [])) \<and>
         (0 \<le> GetInt ev SEPARATION_RPM \<and> GetInt ev SEPARATION_RPM \<le> 9 \<longrightarrow>
            SendSettings sm ev e =
              (False, e\<lparr>motorSettings := rest, awaitingMotorSettingAck := True,
                        motorWrites := motorWrites e @ [WriteString cmd (GetInt ev SEPARATION_RPM)]\<rparr>))"
  using assms
  by (auto simp: SendSettings_def Let_def HandleError_def SendStatus1_def SendStatus_def
      SendMotorCommandString_def error_record_def)

theorem SendSettings_separation_rpm_witness:
  "motorSettings pending_rpm_engine =
     (SEPARATION_RPM, SEPARATION_RPM_COMMAND) # [(LAYER_THICKNESS, LAYER_THICKNESS_COMMAND)] \<and>
   motorSettings last_rpm_engine = (SEPARATION_RPM, SEPARATION_RPM_COMMAND) # [] \<and>
   9 < GetInt example_env SEPARATION_RPM \<and>
   fst (SendSettings HandleFatalError_spec example_env pending_rpm_engine) = False \<and>
   fst (SendSettings HandleFatalError_spec example_env last_rpm_engine) = True \<and>
   motorWrites (snd (SendSettings HandleFatalError_spec example_env last_rpm_engine)) = [] \<and>
   map errorCode (statusPipe (snd (SendSettings HandleFatalError_spec example_env
      last_rpm_engine))) = [SeparationRpmOutOfRange] \<and>
   0 \<le> GetInt slow_rpm_env SEPARATION_RPM \<and> GetInt slow_rpm_env SEPARATION_RPM \<le> 9 \<and>
   motorWrites (snd (SendSettings HandleFatalError_spec slow_rpm_env last_rpm_engine)) =
     [WriteString SEPARATION_RPM_COMMAND 4] \<and>
   awaitingMotorSettingAck (snd (SendSettings HandleFatalError_spec slow_rpm_env
      last_rpm_engine)) \<and>
   fst (SendSettings HandleFatalError_spec slow_rpm_env last_rpm_engine) = False"
proof -
  have p: "motorSettings pending_rpm_engine =
     (SEPARATION_RPM, SEPARATION_RPM_COMMAND) # [(LAYER_THICKNESS, LAYER_THICKNESS_COMMAND)]"
    by (simp add: pending_rpm_engine_def)
  have l: "motorSettings last_rpm_engine = (SEPARATION_RPM, SEPARATION_RPM_COMMAND) # []"
    by (simp add: last_rpm_engine_def)
  have v: "GetInt example_env SEPARATION_RPM = 12"
    by (simp add: example_env_def example_ints_def)
  have v': "GetInt slow_rpm_env SEPARATION_RPM = 4"
    by (simp add: slow_rpm_env_def slow_rpm_ints_def)
  have f: "motorWrites last_rpm_engine = []" "statusPipe last_rpm_engine = []"
    "0 \<le> statusWriteFd last_rpm_engine"
    by (simp_all add: last_rpm_engine_def PrintEngine_def)
  show ?thesis
    using p l
      SendSettings_separation_rpm [OF p, of example_env HandleFatalError_spec]
      SendSettings_separation_rpm [OF l, of example_env HandleFatalError_spec]
      SendSettings_separation_rpm [OF l, of slow_rpm_env HandleFatalError_spec]
    by (simp add: v v' f error_record_def)
qed

end
